theory Spec2Isabelle
  imports Main "HOL-Library.Sublist"
begin

section \<open>JavaScript values\<close>

text \<open>
  The wrappers are Cloudflare Workers written in JavaScript. Four of them dispatch
  JSON-RPC requests themselves and are modelled here: memory, sequential thinking, Discord
  (the one with \<open>handleMCPRequest\<close>) and filesystem. The wrapper of the "everything"
  server and the FastMCP-based Discord wrapper pass every request to code outside these
  sources.

  A parsed JSON document is a
  \<open>json\<close> value; a JavaScript value that may be \<open>undefined\<close> (a missing property, a
  missing parameter) is a \<open>json option\<close>, with \<open>None\<close> for \<open>undefined\<close>.
  The parsed object of a JSON text has each key once.

  A JSON number is a double. The wrappers never calculate with one: they test it for
  truthiness, compare it and render it. \<open>JNum r\<close> is the number whose rendering by
  \<open>Number::toString\<close> is \<open>r\<close> (\<open>7\<close>, \<open>1.5\<close>, \<open>1e+21\<close>); the rendering determines the
  number up to the sign of zero, which none of these operations sees.
\<close>

datatype json =
    JNull
  | JBool bool
  | JNum string
  | JStr string
  | JArr "json list"
  | JObj "(string \<times> json) list"

type_synonym jsval = "json option"

text \<open>
  A thrown exception is a value. The text of an error raised by the engine itself
  (\<open>TypeError\<close>, \<open>ReferenceError\<close>) is the one V8, the engine of the Workers runtime,
  gives it. The text of \<open>new Error(...)\<close> is the one the source builds.
\<close>

datatype error =
    SyntaxError string
  | TypeError string
  | ReferenceError string
  | Error string

fun message :: "error \<Rightarrow> string" where
  "message (SyntaxError m) = m"
| "message (TypeError m) = m"
| "message (ReferenceError m) = m"
| "message (Error m) = m"

text \<open>Truthiness, as \<open>!v\<close>, \<open>v || w\<close> and \<open>if (v)\<close> test it.\<close>

fun truthy :: "jsval \<Rightarrow> bool" where
  "truthy None = False"
| "truthy (Some JNull) = False"
| "truthy (Some (JBool b)) = b"
| "truthy (Some (JNum r)) = (r \<noteq> ''0'')"
| "truthy (Some (JStr s)) = (s \<noteq> [])"
| "truthy (Some (JArr xs)) = True"
| "truthy (Some (JObj kvs)) = True"

text \<open>\<open>v || w\<close> where \<open>w\<close> is defined.\<close>

definition or_else :: "jsval \<Rightarrow> json \<Rightarrow> json" where
  "or_else v w = (case v of None \<Rightarrow> w | Some j \<Rightarrow> if truthy (Some j) then j else w)"

text \<open>
  Decimal rendering of a natural number: of a length, an HTTP status, a clock reading in
  milliseconds. All of these are below \<open>10^21\<close>, where \<open>Number::toString\<close> writes the
  plain decimal.
\<close>

definition digit :: "nat \<Rightarrow> char" where
  "digit n = ''0123456789'' ! (n mod 10)"

fun show_nat :: "nat \<Rightarrow> string" where
  "show_nat n = (if n < 10 then [digit n] else show_nat (n div 10) @ [digit n])"

declare show_nat.simps [simp del]

text \<open>
  \<open>ToString\<close>, as \<open>`${v}`\<close> and a computed property key apply it. An array is its
  elements joined by commas, \<open>null\<close> elements rendered empty. A plain object is
  \<open>[object Object]\<close>, unless it has a property \<open>toString\<close> of its own: no JSON value is
  callable, \<open>valueOf\<close> returns the object itself, and the conversion throws.
\<close>

fun to_string :: "json \<Rightarrow> error + string"
  and join_elements :: "json list \<Rightarrow> error + string" where
  "to_string JNull = Inr ''null''"
| "to_string (JBool b) = Inr (if b then ''true'' else ''false'')"
| "to_string (JNum r) = Inr r"
| "to_string (JStr s) = Inr s"
| "to_string (JArr xs) = join_elements xs"
| "to_string (JObj kvs) =
     (if map_of kvs ''toString'' = None then Inr ''[object Object]''
      else Inl (TypeError ''Cannot convert object to primitive value''))"
| "join_elements [] = Inr []"
| "join_elements (x # xs) =
     (case (if x = JNull then Inr [] else to_string x) of
        Inl e \<Rightarrow> Inl e
      | Inr s \<Rightarrow>
          if xs = [] then Inr s
          else (case join_elements xs of Inl e \<Rightarrow> Inl e | Inr r \<Rightarrow> Inr (s @ '','' @ r)))"

definition template :: "jsval \<Rightarrow> error + string" where
  "template v = (case v of None \<Rightarrow> Inr ''undefined'' | Some j \<Rightarrow> to_string j)"

text \<open>
  The property \<open>k\<close> of a value that is neither \<open>null\<close> nor \<open>undefined\<close>, for the
  identifiers the wrappers read (\<open>jsonrpc\<close>, \<open>id\<close>, \<open>method\<close>, \<open>params\<close>, \<open>name\<close>,
  \<open>arguments\<close>, \<open>length\<close>, ...), none of which a prototype provides: an array and a
  string have \<open>length\<close>; any other missing property reads \<open>undefined\<close>.
\<close>

fun field :: "json \<Rightarrow> string \<Rightarrow> jsval" where
  "field (JObj kvs) k = map_of kvs k"
| "field (JArr xs) k = (if k = ''length'' then Some (JNum (show_nat (length xs))) else None)"
| "field (JStr s) k = (if k = ''length'' then Some (JNum (show_nat (length s))) else None)"
| "field j k = None"

text \<open>A name between apostrophes, as the engine's messages quote it.\<close>

definition quoted :: "string \<Rightarrow> string" where
  "quoted s = CHR 0x27 # s @ [CHR 0x27]"

text \<open>Reading \<open>v.k\<close>: \<open>null\<close> and \<open>undefined\<close> have no properties and the read throws.\<close>

definition get_prop :: "jsval \<Rightarrow> string \<Rightarrow> error + jsval" where
  "get_prop v k =
     (case v of
        None \<Rightarrow>
          Inl (TypeError (''Cannot read properties of undefined (reading '' @ quoted k @ '')''))
      | Some JNull \<Rightarrow>
          Inl (TypeError (''Cannot read properties of null (reading '' @ quoted k @ '')''))
      | Some j \<Rightarrow> Inr (field j k))"

text \<open>
  A destructuring \<open>const { first, ... } = var\<close>: it throws when the value is \<open>undefined\<close>
  or \<open>null\<close>, before any property is read.
\<close>

definition destructure :: "string \<Rightarrow> string \<Rightarrow> jsval \<Rightarrow> error + json" where
  "destructure first var v =
     (case v of
        None \<Rightarrow>
          Inl (TypeError (''Cannot destructure property '' @ quoted first @ '' of '' @
                          quoted var @ '' as it is undefined.''))
      | Some JNull \<Rightarrow>
          Inl (TypeError (''Cannot destructure property '' @ quoted first @ '' of '' @
                          quoted var @ '' as it is null.''))
      | Some j \<Rightarrow> Inr j)"

text \<open>\<open>s.replace(pat, rep)\<close> with a string pattern: the first occurrence only.\<close>

fun replace :: "string \<Rightarrow> string \<Rightarrow> string \<Rightarrow> string" where
  "replace pat rep [] = (if pat = [] then rep else [])"
| "replace pat rep (c # cs) =
     (if prefix pat (c # cs) then rep @ drop (length pat) (c # cs)
      else c # replace pat rep cs)"

text \<open>An environment binding that is a string: \<open>if (env.X)\<close> holds when it is bound and not empty.\<close>

definition is_set :: "string option \<Rightarrow> bool" where
  "is_set v = (case v of None \<Rightarrow> False | Some s \<Rightarrow> s \<noteq> [])"

section \<open>HTTP requests and responses\<close>

text \<open>
  What a wrapper reads of the incoming request: the HTTP method, the path of the URL, two
  headers (absent: \<open>None\<close>), and the outcome of \<open>await request.json()\<close>, which throws on a
  body that is not JSON.
\<close>

record http_request =
  http_method :: string
  pathname :: string
  Authorization :: "string option"
  X_User_Id :: "string option"
  json_body :: "error + json"

text \<open>
  The text of a tool result's content item: a string the source builds, or the
  \<open>JSON.stringify\<close> rendering of a value (the rendering itself is not modelled).
  \<open>JSON.stringify\<close> leaves out a property whose value is \<open>undefined\<close>, so an object
  literal to be rendered is the list of its defined properties.
\<close>

definition object :: "(string \<times> jsval) list \<Rightarrow> json" where
  "object kvs = JObj (concat (map (\<lambda>(k, v). case v of None \<Rightarrow> [] | Some j \<Rightarrow> [(k, j)]) kvs))"

record entity =
  entity_name :: jsval
  entityType :: jsval
  observations :: json

record graph =
  entities :: "string \<rightharpoonup> entity"
  relations :: "json list"

datatype text_value =
    Text string
  | Stringified json
  | StringifiedGraph graph

text \<open>
  A tool-call result \<open>{content: [{type: 'text', text}], isError}\<close>: the texts of its
  content items, and \<open>isError\<close> (absent in the source: \<open>False\<close>).
\<close>

record tool_result =
  content :: "text_value list"
  isError :: bool

datatype rpc_result =
    Static json
  | ToolCallResult tool_result

text \<open>
  The body of a response: none, a plain text, the health document, or a JSON-RPC envelope.
  \<open>Result r i\<close> is \<open>{jsonrpc: '2.0', result: r, id: i}\<close>, where an \<open>undefined\<close> id is left
  out by \<open>JSON.stringify\<close>; \<open>Failure c m d i\<close> is
  \<open>{jsonrpc: '2.0', error: {code: c, message: m, data: d}, id: i}\<close>.
\<close>

datatype payload =
    NoBody
  | PlainText string
  | Health string string
  | Result rpc_result jsval
  | Failure int string "string option" json

record response =
  status :: nat
  cors :: bool
  payload :: payload

section \<open>The environment of a Worker\<close>

text \<open>
  The bindings the wrappers read from \<open>env\<close>; an unbound one is \<open>None\<close>. A KV namespace
  holds JSON texts under string keys; the model keeps the parsed value, so
  \<open>get(key, 'json')\<close> of a missing key is \<open>None\<close> (the source's \<open>null\<close>) and
  \<open>put(key, JSON.stringify v)\<close> stores \<open>v\<close>. The memory namespace is taken to hold
  graphs and the thinking namespace sessions, of the shape the wrappers write: a property
  that is \<open>undefined\<close> when written is absent when read back.
\<close>

record step =
  step_id :: string
  query :: jsval
  timestamp :: string
  thinking :: string
  conclusion :: string

record session =
  session_id :: json
  created :: string
  steps :: "step list"
  updated :: "string option"

record env =
  JWT_SECRET :: "string option"
  API_KEY :: "string option"
  SERVICE_KEY :: "string option"
  DISCORD_TOKEN :: "string option"
  MEMORY_KV :: "(string \<rightharpoonup> graph) option"
  THINKING_KV :: "(string \<rightharpoonup> session) option"

section \<open>The parts the wrappers share\<close>

text \<open>The response to \<open>OPTIONS\<close>: \<open>new Response(null, { headers: corsHeaders })\<close>.\<close>

definition preflight :: response where
  "preflight = \<lparr>status = 200, cors = True, payload = NoBody\<rparr>"

definition unauthorized :: "string \<Rightarrow> response" where
  "unauthorized msg = \<lparr>status = 401, cors = True, payload = Failure (- 32001) msg None JNull\<rparr>"

definition health :: "string \<Rightarrow> response" where
  "health service = \<lparr>status = 200, cors = True, payload = Health service ''1.0.0''\<rparr>"

definition not_found :: response where
  "not_found = \<lparr>status = 404, cors = False, payload = PlainText ''Not Found''\<rparr>"

text \<open>
  The JWT gate of the memory, sequential-thinking and filesystem wrappers:
  \<open>token = authHeader?.replace('Bearer ', '')\<close>, refused when
  \<open>!token || !token.startsWith('mcp_jwt_')\<close>. \<open>Some r\<close> is the early return.
\<close>

definition jwt_gate :: "http_request \<Rightarrow> env \<Rightarrow> response option" where
  "jwt_gate request env =
     (if is_set (JWT_SECRET env) then
        (case map_option (replace ''Bearer '' []) (Authorization request) of
           None \<Rightarrow> Some (unauthorized ''Unauthorized - Invalid or missing JWT token'')
         | Some token \<Rightarrow>
             if token = [] \<or> \<not> prefix ''mcp_jwt_'' token
             then Some (unauthorized ''Unauthorized - Invalid or missing JWT token'')
             else None)
      else None)"

text \<open>
  The envelope check \<open>!body.jsonrpc || body.jsonrpc !== '2.0'\<close>. Reading \<open>body.jsonrpc\<close>
  throws when the body is \<open>null\<close>.
\<close>

definition invalid_marker :: "json \<Rightarrow> error + bool" where
  "invalid_marker body =
     (case get_prop (Some body) ''jsonrpc'' of
        Inl e \<Rightarrow> Inl e
      | Inr m \<Rightarrow> Inr (if truthy m then m \<noteq> Some (JStr ''2.0'') else True))"

text \<open>The property \<open>body.id\<close> of a body on which \<open>body.jsonrpc\<close> was read without a throw.\<close>

definition body_id :: "json \<Rightarrow> jsval" where
  "body_id body = (case get_prop (Some body) ''id'' of Inl e \<Rightarrow> None | Inr i \<Rightarrow> i)"

text \<open>The 400 response, with \<open>id: body.id || null\<close>.\<close>

definition invalid_request :: "json \<Rightarrow> response" where
  "invalid_request body =
     \<lparr>status = 400, cors = True,
      payload = Failure (- 32600) ''Invalid Request'' None (or_else (body_id body) JNull)\<rparr>"

text \<open>The success response, with \<open>id: body.id\<close>.\<close>

definition success :: "rpc_result \<Rightarrow> json \<Rightarrow> response" where
  "success result body = \<lparr>status = 200, cors = True, payload = Result result (body_id body)\<rparr>"

text \<open>The outer \<open>catch (error)\<close>: \<open>data: error.message\<close> and \<open>id: null\<close>.\<close>

definition internal_error :: "error \<Rightarrow> response" where
  "internal_error e =
     \<lparr>status = 500, cors = True,
      payload = Failure (- 32603) ''Internal error'' (Some (message e)) JNull\<rparr>"

section \<open>The memory wrapper\<close>

definition memory_initialize :: json where
  "memory_initialize =
     JObj [(''protocolVersion'', JStr ''2024-11-05''),
           (''capabilities'', JObj [(''tools'', JObj [])]),
           (''serverInfo'', JObj [(''name'', JStr ''memory-server''), (''version'', JStr ''0.6.3'')])]"

definition memory_tools :: "json list" where
  "memory_tools =
     [JObj [(''name'', JStr ''create_entities''),
            (''description'', JStr ''Create one or more entities in the knowledge graph''),
            (''inputSchema'', JObj
               [(''type'', JStr ''object''),
                (''properties'', JObj
                   [(''entities'', JObj
                       [(''type'', JStr ''array''),
                        (''items'', JObj
                           [(''type'', JStr ''object''),
                            (''properties'', JObj
                               [(''name'', JObj [(''type'', JStr ''string'')]),
                                (''entityType'', JObj [(''type'', JStr ''string'')]),
                                (''observations'', JObj
                                   [(''type'', JStr ''array''),
                                    (''items'', JObj [(''type'', JStr ''string'')])])]),
                            (''required'', JArr [JStr ''name'', JStr ''entityType''])])])]),
                (''required'', JArr [JStr ''entities''])])],
      JObj [(''name'', JStr ''create_relations''),
            (''description'', JStr ''Create one or more relations between entities''),
            (''inputSchema'', JObj
               [(''type'', JStr ''object''),
                (''properties'', JObj
                   [(''relations'', JObj
                       [(''type'', JStr ''array''),
                        (''items'', JObj
                           [(''type'', JStr ''object''),
                            (''properties'', JObj
                               [(''from'', JObj [(''type'', JStr ''string'')]),
                                (''to'', JObj [(''type'', JStr ''string'')]),
                                (''relationType'', JObj [(''type'', JStr ''string'')])]),
                            (''required'', JArr [JStr ''from'', JStr ''to'', JStr ''relationType''])])])]),
                (''required'', JArr [JStr ''relations''])])],
      JObj [(''name'', JStr ''add_observations''),
            (''description'', JStr ''Add observations to existing entities''),
            (''inputSchema'', JObj
               [(''type'', JStr ''object''),
                (''properties'', JObj
                   [(''observations'', JObj
                       [(''type'', JStr ''array''),
                        (''items'', JObj
                           [(''type'', JStr ''object''),
                            (''properties'', JObj
                               [(''entityName'', JObj [(''type'', JStr ''string'')]),
                                (''contents'', JObj
                                   [(''type'', JStr ''array''),
                                    (''items'', JObj [(''type'', JStr ''string'')])])]),
                            (''required'', JArr [JStr ''entityName'', JStr ''contents''])])])]),
                (''required'', JArr [JStr ''observations''])])],
      JObj [(''name'', JStr ''search_entities''),
            (''description'', JStr ''Search for entities in the knowledge graph''),
            (''inputSchema'', JObj
               [(''type'', JStr ''object''),
                (''properties'', JObj [(''query'', JObj [(''type'', JStr ''string'')])]),
                (''required'', JArr [JStr ''query''])])],
      JObj [(''name'', JStr ''read_graph''),
            (''description'', JStr ''Read the entire knowledge graph''),
            (''inputSchema'', JObj
               [(''type'', JStr ''object''),
                (''properties'', JObj [])])]]"

text \<open>The names of a tool table, in its order.\<close>

definition tool_names :: "json list \<Rightarrow> string list" where
  "tool_names tools =
     concat (map (\<lambda>t. case get_prop (Some t) ''name'' of Inr (Some (JStr n)) \<Rightarrow> [n] | _ \<Rightarrow> []) tools)"

text \<open>
  The free identifier \<open>request\<close> in \<open>handleMemoryToolCall\<close> and in
  \<open>handleThinkingToolCall\<close>. Both are functions of the module's top level with the
  parameters \<open>params\<close> and \<open>env\<close>; \<open>request\<close> is a parameter of \<open>fetch\<close> and of the
  \<open>handle...Request\<close> function only, and neither the module nor the Workers runtime
  declares it globally. Evaluating it throws a \<open>ReferenceError\<close>.
\<close>

definition request_in_scope :: "error + http_request" where
  "request_in_scope = Inl (ReferenceError ''request is not defined'')"

text \<open>\<open>const { name, arguments: args } = params\<close>: throws when \<open>params\<close> is \<open>undefined\<close> or \<open>null\<close>.\<close>

definition destructure_params :: "jsval \<Rightarrow> error + jsval \<times> jsval" where
  "destructure_params params =
     (case destructure ''name'' ''params'' params of
        Inl e \<Rightarrow> Inl e
      | Inr p \<Rightarrow> Inr (field p ''name'', field p ''arguments''))"

text \<open>\<open>request.headers.get('X-User-Id') || 'default'\<close>.\<close>

definition user_id :: "http_request \<Rightarrow> string" where
  "user_id request =
     (case X_User_Id request of
        None \<Rightarrow> ''default''
      | Some h \<Rightarrow> if h = [] then ''default'' else h)"

definition empty_graph :: graph where
  "empty_graph = \<lparr>entities = Map.empty, relations = []\<rparr>"

text \<open>\<open>await env.MEMORY_KV.get(userMemoryKey, 'json') || { entities: {}, relations: [] }\<close>.\<close>

definition load_graph :: "string \<Rightarrow> env \<Rightarrow> error + graph" where
  "load_graph userMemoryKey env =
     (case MEMORY_KV env of
        None \<Rightarrow> Inl (TypeError (''Cannot read properties of undefined (reading '' @ quoted ''get'' @ '')''))
      | Some kv \<Rightarrow> Inr (case kv userMemoryKey of None \<Rightarrow> empty_graph | Some g \<Rightarrow> g))"

definition soft_error :: "string \<Rightarrow> error \<Rightarrow> tool_result" where
  "soft_error intro e = \<lparr>content = [Text (intro @ message e)], isError = True\<rparr>"

definition read_graph :: "string \<Rightarrow> env \<Rightarrow> tool_result" where
  "read_graph userMemoryKey env =
     (case load_graph userMemoryKey env of
        Inl e \<Rightarrow> soft_error ''Error reading memory graph: '' e
      | Inr graph \<Rightarrow> \<lparr>content = [StringifiedGraph graph], isError = False\<rparr>)"

text \<open>
  \<open>graph.entities[key] = value\<close> on a plain object, the value being an object: the key
  \<open>__proto__\<close> sets the prototype and creates no entry; any other key is created or
  overwritten.
\<close>

definition assign :: "(string \<rightharpoonup> entity) \<Rightarrow> string \<Rightarrow> entity \<Rightarrow> (string \<rightharpoonup> entity)" where
  "assign m k v = (if k = ''__proto__'' then m else m(k \<mapsto> v))"

text \<open>
  The body of \<open>for (const entity of args.entities)\<close> for one element: the property key
  \<open>entity.name\<close> (converted to a string, which can throw) and the object literal assigned
  under it. Reading \<open>entity.name\<close> throws on \<open>null\<close>.
\<close>

definition entity_of :: "json \<Rightarrow> error + string \<times> entity" where
  "entity_of e =
     (case get_prop (Some e) ''name'' of
        Inl err \<Rightarrow> Inl err
      | Inr nm \<Rightarrow>
          (case get_prop (Some e) ''entityType'' of
             Inl err \<Rightarrow> Inl err
           | Inr ty \<Rightarrow>
               (case get_prop (Some e) ''observations'' of
                  Inl err \<Rightarrow> Inl err
                | Inr obs \<Rightarrow>
                    (case template nm of
                       Inl err \<Rightarrow> Inl err
                     | Inr k \<Rightarrow>
                         Inr (k, \<lparr>entity_name = nm, entityType = ty,
                                 observations = or_else obs (JArr [])\<rparr>)))))"

definition store_entity :: "json \<Rightarrow> (string \<rightharpoonup> entity) \<Rightarrow> error + (string \<rightharpoonup> entity)" where
  "store_entity e m =
     (case entity_of e of
        Inl err \<Rightarrow> Inl err
      | Inr (k, v) \<Rightarrow> Inr (assign m k v))"

fun store_entities :: "json list \<Rightarrow> (string \<rightharpoonup> entity) \<Rightarrow> error + (string \<rightharpoonup> entity)" where
  "store_entities [] m = Inr m"
| "store_entities (e # es) m =
     (case store_entity e m of
        Inl err \<Rightarrow> Inl err
      | Inr m' \<Rightarrow> store_entities es m')"

text \<open>
  What \<open>for ... of\<close> iterates: the elements of an array, the characters of a string;
  anything else is not iterable.
\<close>

definition iterate :: "jsval \<Rightarrow> error + json list" where
  "iterate v =
     (case v of
        Some (JArr xs) \<Rightarrow> Inr xs
      | Some (JStr s) \<Rightarrow> Inr (map (\<lambda>c. JStr [c]) s)
      | _ \<Rightarrow> Inl (TypeError ''args.entities is not iterable''))"

text \<open>
  The \<open>try\<close> block of the \<open>create_entities\<close> branch: the outcome and the store after it.
  The \<open>put\<close> is the last statement that can fail, so a throw leaves the store as it was.
\<close>

definition create_entities_try ::
    "string \<Rightarrow> jsval \<Rightarrow> env \<Rightarrow> (error + tool_result) \<times> env" where
  "create_entities_try userMemoryKey args env =
     (case load_graph userMemoryKey env of
        Inl e \<Rightarrow> (Inl e, env)
      | Inr graph \<Rightarrow>
          (case get_prop args ''entities'' of
             Inl e \<Rightarrow> (Inl e, env)
           | Inr ents \<Rightarrow>
               (case iterate ents of
                  Inl e \<Rightarrow> (Inl e, env)
                | Inr es \<Rightarrow>
                    (case store_entities es (entities graph) of
                       Inl e \<Rightarrow> (Inl e, env)
                     | Inr m \<Rightarrow>
                         (case MEMORY_KV env of
                            None \<Rightarrow>
                              (Inl (TypeError (''Cannot read properties of undefined (reading '' @
                                               quoted ''put'' @ '')'')), env)
                          | Some kv \<Rightarrow>
                              (Inr \<lparr>content = [Text (''Created '' @ show_nat (length es) @ '' entities'')],
                                    isError = False\<rparr>,
                               env\<lparr>MEMORY_KV := Some (kv(userMemoryKey \<mapsto> graph\<lparr>entities := m\<rparr>))\<rparr>))))))"

definition create_entities :: "string \<Rightarrow> jsval \<Rightarrow> env \<Rightarrow> tool_result \<times> env" where
  "create_entities userMemoryKey args env =
     (case create_entities_try userMemoryKey args env of
        (Inl e, env') \<Rightarrow> (soft_error ''Error creating entities: '' e, env')
      | (Inr r, env') \<Rightarrow> (r, env'))"

definition handleMemoryToolCall :: "jsval \<Rightarrow> env \<Rightarrow> (error + tool_result) \<times> env" where
  "handleMemoryToolCall params env =
     (case destructure_params params of
        Inl e \<Rightarrow> (Inl e, env)
      | Inr (name, args) \<Rightarrow>
          (case request_in_scope of
             Inl e \<Rightarrow> (Inl e, env)
           | Inr request \<Rightarrow>
               (let userMemoryKey = ''memory:'' @ user_id request in
                if name = Some (JStr ''read_graph'') then (Inr (read_graph userMemoryKey env), env)
                else if name = Some (JStr ''create_entities'') then
                  (case create_entities userMemoryKey args env of (r, env') \<Rightarrow> (Inr r, env'))
                else
                  (case template name of
                     Inl e \<Rightarrow> (Inl e, env)
                   | Inr n \<Rightarrow>
                       (Inr \<lparr>content = [Text (''Tool '' @ n @ '' is being implemented'')],
                             isError = False\<rparr>, env)))))"

text \<open>\<open>const { method, params } = request\<close> of the \<open>handle...Request\<close> functions.\<close>

definition destructure_request :: "json \<Rightarrow> error + jsval \<times> jsval" where
  "destructure_request request =
     (case destructure ''method'' ''request'' (Some request) of
        Inl e \<Rightarrow> Inl e
      | Inr r \<Rightarrow> Inr (field r ''method'', field r ''params''))"

text \<open>
  What \<open>throw new Error(`Unknown method: ${method}`)\<close> throws: the template literal is
  evaluated first, and its conversion of \<open>method\<close> can throw instead.
\<close>

definition unknown_method :: "jsval \<Rightarrow> error" where
  "unknown_method method =
     (case template method of
        Inl e \<Rightarrow> e
      | Inr m \<Rightarrow> Error (''Unknown method: '' @ m))"

definition handleMemoryRequest :: "json \<Rightarrow> env \<Rightarrow> (error + rpc_result) \<times> env" where
  "handleMemoryRequest request env =
     (case destructure_request request of
        Inl e \<Rightarrow> (Inl e, env)
      | Inr (method, params) \<Rightarrow>
          if method = Some (JStr ''initialize'') then (Inr (Static memory_initialize), env)
          else if method = Some (JStr ''tools/list'') then
            (Inr (Static (JObj [(''tools'', JArr memory_tools)])), env)
          else if method = Some (JStr ''tools/call'') then
            (case handleMemoryToolCall params env of
               (Inl e, env') \<Rightarrow> (Inl e, env')
             | (Inr r, env') \<Rightarrow> (Inr (ToolCallResult r), env'))
          else (Inl (unknown_method method), env))"

text \<open>
  The \<open>try\<close>/\<open>catch\<close> of the \<open>POST /\<close> branch, for a handler \<open>handle\<close>: a throw of
  \<open>request.json()\<close>, of the envelope check or of the handler reaches the \<open>catch\<close>.
\<close>

definition post_root ::
    "(json \<Rightarrow> env \<Rightarrow> (error + rpc_result) \<times> env) \<Rightarrow> http_request \<Rightarrow> env \<Rightarrow> response \<times> env" where
  "post_root handle request env =
     (case json_body request of
        Inl e \<Rightarrow> (internal_error e, env)
      | Inr body \<Rightarrow>
          (case invalid_marker body of
             Inl e \<Rightarrow> (internal_error e, env)
           | Inr True \<Rightarrow> (invalid_request body, env)
           | Inr False \<Rightarrow>
               (case handle body env of
                  (Inl e, env') \<Rightarrow> (internal_error e, env')
                | (Inr result, env') \<Rightarrow> (success result body, env'))))"

definition memory_fetch :: "http_request \<Rightarrow> env \<Rightarrow> response \<times> env" where
  "memory_fetch request env =
     (if http_method request = ''OPTIONS'' then (preflight, env)
      else
        (case jwt_gate request env of
           Some r \<Rightarrow> (r, env)
         | None \<Rightarrow>
             if pathname request = ''/health'' then (health ''mcp-memory-server'', env)
             else if http_method request = ''POST'' \<and> pathname request = ''/''
             then post_root handleMemoryRequest request env
             else (not_found, env)))"

section \<open>The sequential-thinking wrapper\<close>

definition thinking_initialize :: json where
  "thinking_initialize =
     JObj [(''protocolVersion'', JStr ''2024-11-05''),
           (''capabilities'', JObj [(''tools'', JObj [])]),
           (''serverInfo'', JObj [(''name'', JStr ''sequentialthinking-server''),
                                  (''version'', JStr ''0.6.3'')])]"

definition thinking_tools :: "json list" where
  "thinking_tools =
     [JObj [(''name'', JStr ''sequential_thinking''),
            (''description'', JStr ''Engage in structured, step-by-step thinking to solve complex problems''),
            (''inputSchema'', JObj
               [(''type'', JStr ''object''),
                (''properties'', JObj
                   [(''query'', JObj [(''type'', JStr ''string''),
                                      (''description'', JStr ''The problem or question to think through'')]),
                    (''session_id'', JObj
                       [(''type'', JStr ''string''),
                        (''description'', JStr ''Optional session ID to continue a previous thinking session'')])]),
                (''required'', JArr [JStr ''query''])])],
      JObj [(''name'', JStr ''get_thinking_session''),
            (''description'', JStr ''Retrieve a complete thinking session''),
            (''inputSchema'', JObj
               [(''type'', JStr ''object''),
                (''properties'', JObj
                   [(''session_id'', JObj [(''type'', JStr ''string''),
                                           (''description'', JStr ''The session ID to retrieve'')])]),
                (''required'', JArr [JStr ''session_id''])])],
      JObj [(''name'', JStr ''list_sessions''),
            (''description'', JStr ''List all thinking sessions''),
            (''inputSchema'', JObj
               [(''type'', JStr ''object''),
                (''properties'', JObj [])])],
      JObj [(''name'', JStr ''clear_session''),
            (''description'', JStr ''Clear a specific thinking session''),
            (''inputSchema'', JObj
               [(''type'', JStr ''object''),
                (''properties'', JObj
                   [(''session_id'', JObj [(''type'', JStr ''string''),
                                           (''description'', JStr ''The session ID to clear'')])]),
                (''required'', JArr [JStr ''session_id''])])]]"

text \<open>
  The clock readings of one \<open>sequential_thinking\<close> call: \<open>Date.now()\<close> and the three
  \<open>new Date().toISOString()\<close> of the session's \<open>created\<close>, the step's \<open>timestamp\<close> and
  the session's \<open>updated\<close>.
\<close>

record clock =
  date_now :: nat
  iso_created :: string
  iso_timestamp :: string
  iso_updated :: string

definition nl :: string where
  "nl = [CHR 0x0A]"

text \<open>
  The \<open>try\<close> block of the \<open>sequential_thinking\<close> branch. \<open>env.THINKING_KV?.get\<close> and
  \<open>env.THINKING_KV?.put\<close> do nothing on an unbound namespace.
\<close>

definition sequential_thinking_try ::
    "clock \<Rightarrow> string \<Rightarrow> jsval \<Rightarrow> env \<Rightarrow> (error + tool_result) \<times> env" where
  "sequential_thinking_try clk userId args env =
     (case get_prop args ''session_id'' of
        Inl e \<Rightarrow> (Inl e, env)
      | Inr sid \<Rightarrow>
          (let sessionId = or_else sid (JStr (''session_'' @ show_nat (date_now clk))) in
           case to_string sessionId of
             Inl e \<Rightarrow> (Inl e, env)
           | Inr sessionText \<Rightarrow>
               (case get_prop args ''query'' of
                  Inl e \<Rightarrow> (Inl e, env)
                | Inr q \<Rightarrow>
                    (case template q of
                       Inl e \<Rightarrow> (Inl e, env)
                     | Inr queryText \<Rightarrow>
                         (let sessionKey = ''thinking:'' @ userId @ '':'' @ sessionText;
                              fresh = \<lparr>session_id = sessionId, created = iso_created clk,
                                       steps = [], updated = None\<rparr>;
                              session = (case THINKING_KV env of
                                           None \<Rightarrow> fresh
                                         | Some kv \<Rightarrow>
                                             (case kv sessionKey of None \<Rightarrow> fresh | Some s \<Rightarrow> s));
                              step = \<lparr>step_id = ''step_'' @ show_nat (length (steps session) + 1),
                                      query = q,
                                      timestamp = iso_timestamp clk,
                                      thinking = ''Analyzing: '' @ queryText,
                                      conclusion =
                                        ''This requires further analysis through structured thinking.''\<rparr>;
                              session' = session\<lparr>steps := steps session @ [step],
                                                 updated := Some (iso_updated clk)\<rparr>;
                              env' = (case THINKING_KV env of
                                        None \<Rightarrow> env
                                      | Some kv \<Rightarrow>
                                          env\<lparr>THINKING_KV := Some (kv(sessionKey \<mapsto> session'))\<rparr>)
                          in (Inr \<lparr>content =
                                     [Text (''**Sequential Thinking - Step '' @ step_id step @ ''**'' @
                                            nl @ nl @
                                            ''**Query:** '' @ queryText @ nl @ nl @
                                            ''**Analysis:** '' @ thinking step @ nl @ nl @
                                            ''**Conclusion:** '' @ conclusion step @ nl @ nl @
                                            ''**Session ID:** '' @ sessionText)],
                                   isError = False\<rparr>, env'))))))"

definition sequential_thinking :: "clock \<Rightarrow> string \<Rightarrow> jsval \<Rightarrow> env \<Rightarrow> tool_result \<times> env" where
  "sequential_thinking clk userId args env =
     (case sequential_thinking_try clk userId args env of
        (Inl e, env') \<Rightarrow> (soft_error ''Error in sequential thinking: '' e, env')
      | (Inr r, env') \<Rightarrow> (r, env'))"

definition list_sessions :: tool_result where
  "list_sessions =
     \<lparr>content = [Text ''Session listing functionality available - requires KV storage setup''],
      isError = False\<rparr>"

definition handleThinkingToolCall :: "clock \<Rightarrow> jsval \<Rightarrow> env \<Rightarrow> (error + tool_result) \<times> env" where
  "handleThinkingToolCall clk params env =
     (case destructure_params params of
        Inl e \<Rightarrow> (Inl e, env)
      | Inr (name, args) \<Rightarrow>
          (case request_in_scope of
             Inl e \<Rightarrow> (Inl e, env)
           | Inr request \<Rightarrow>
               (let userId = user_id request in
                if name = Some (JStr ''sequential_thinking'') then
                  (case sequential_thinking clk userId args env of (r, env') \<Rightarrow> (Inr r, env'))
                else if name = Some (JStr ''list_sessions'') then (Inr list_sessions, env)
                else
                  (case template name of
                     Inl e \<Rightarrow> (Inl e, env)
                   | Inr n \<Rightarrow>
                       (Inr \<lparr>content = [Text (''Tool '' @ n @ '' is being implemented'')],
                             isError = False\<rparr>, env)))))"

definition handleThinkingRequest :: "clock \<Rightarrow> json \<Rightarrow> env \<Rightarrow> (error + rpc_result) \<times> env" where
  "handleThinkingRequest clk request env =
     (case destructure_request request of
        Inl e \<Rightarrow> (Inl e, env)
      | Inr (method, params) \<Rightarrow>
          if method = Some (JStr ''initialize'') then (Inr (Static thinking_initialize), env)
          else if method = Some (JStr ''tools/list'') then
            (Inr (Static (JObj [(''tools'', JArr thinking_tools)])), env)
          else if method = Some (JStr ''tools/call'') then
            (case handleThinkingToolCall clk params env of
               (Inl e, env') \<Rightarrow> (Inl e, env')
             | (Inr r, env') \<Rightarrow> (Inr (ToolCallResult r), env'))
          else (Inl (unknown_method method), env))"

definition thinking_fetch :: "clock \<Rightarrow> http_request \<Rightarrow> env \<Rightarrow> response \<times> env" where
  "thinking_fetch clk request env =
     (if http_method request = ''OPTIONS'' then (preflight, env)
      else
        (case jwt_gate request env of
           Some r \<Rightarrow> (r, env)
         | None \<Rightarrow>
             if pathname request = ''/health'' then (health ''mcp-sequentialthinking-server'', env)
             else if http_method request = ''POST'' \<and> pathname request = ''/''
             then post_root (handleThinkingRequest clk) request env
             else (not_found, env)))"

section \<open>The Discord wrapper\<close>

definition discord_initialize :: json where
  "discord_initialize =
     JObj [(''protocolVersion'', JStr ''2024-11-05''),
           (''capabilities'', JObj [(''tools'', JObj [])]),
           (''serverInfo'', JObj [(''name'', JStr ''discord-server''), (''version'', JStr ''1.0.0'')])]"

definition discord_tools :: "json list" where
  "discord_tools =
     [JObj [(''name'', JStr ''send_message''),
            (''description'', JStr ''Send a message to a Discord channel (requires bot permissions and real-time connection).''),
            (''inputSchema'', JObj
               [(''type'', JStr ''object''),
                (''properties'', JObj
                   [(''channel_id'', JObj [(''type'', JStr ''string''),
                                           (''description'', JStr ''Discord channel ID'')]),
                    (''message'', JObj [(''type'', JStr ''string''),
                                        (''description'', JStr ''Message content to send'')])]),
                (''required'', JArr [JStr ''channel_id'', JStr ''message''])])],
      JObj [(''name'', JStr ''get_channel_info''),
            (''description'', JStr ''Get information about a Discord channel via REST API.''),
            (''inputSchema'', JObj
               [(''type'', JStr ''object''),
                (''properties'', JObj
                   [(''channel_id'', JObj [(''type'', JStr ''string''),
                                           (''description'', JStr ''Discord channel ID'')])]),
                (''required'', JArr [JStr ''channel_id''])])],
      JObj [(''name'', JStr ''get_guild_info''),
            (''description'', JStr ''Get information about a Discord server/guild via REST API.''),
            (''inputSchema'', JObj
               [(''type'', JStr ''object''),
                (''properties'', JObj
                   [(''guild_id'', JObj [(''type'', JStr ''string''),
                                         (''description'', JStr ''Discord guild/server ID'')])]),
                (''required'', JArr [JStr ''guild_id''])])]]"

text \<open>
  The exchange with the Discord REST API. The request carries the URL, the \<open>method\<close> and
  \<open>body\<close> options when given (the body as the value that was stringified) and the bot
  token. Its outcome is a transport failure (\<open>fetch\<close> or the reading of the body throws)
  or a response: status, status text, the body text, and the outcome of parsing the body
  as JSON.
\<close>

record upstream_request =
  url :: string
  req_method :: "string option"
  req_body :: "json option"
  bot_token :: string

record upstream_response =
  up_status :: nat
  statusText :: string
  body_text :: string
  body_json :: "error + json"

type_synonym upstream = "upstream_request \<Rightarrow> error + upstream_response"

text \<open>\<open>response.ok\<close>: the status is in the range 200-299.\<close>

definition ok :: "upstream_response \<Rightarrow> bool" where
  "ok response = (200 \<le> up_status response \<and> up_status response \<le> 299)"

definition makeDiscordRequest ::
    "upstream \<Rightarrow> string \<Rightarrow> string option \<Rightarrow> json option \<Rightarrow> string \<Rightarrow> error + json" where
  "makeDiscordRequest net endpoint opt_method opt_body token =
     (case net \<lparr>url = ''https://discord.com/api/v10/'' @ endpoint, req_method = opt_method,
                req_body = opt_body, bot_token = token\<rparr> of
        Inl e \<Rightarrow> Inl e
      | Inr response \<Rightarrow>
          if \<not> ok response then
            Inl (Error (''Discord API error: '' @ show_nat (up_status response) @ '' '' @
                        statusText response @ '' - '' @ body_text response))
          else body_json response)"

text \<open>Reading the properties \<open>srcs\<close> of \<open>data\<close> into an object literal with the keys \<open>dsts\<close>.\<close>

fun pick :: "json \<Rightarrow> (string \<times> string) list \<Rightarrow> error + (string \<times> jsval) list" where
  "pick data [] = Inr []"
| "pick data ((dst, src) # rest) =
     (case get_prop (Some data) src of
        Inl e \<Rightarrow> Inl e
      | Inr v \<Rightarrow> (case pick data rest of Inl e \<Rightarrow> Inl e | Inr kvs \<Rightarrow> Inr ((dst, v) # kvs)))"

definition sendMessage_try :: "upstream \<Rightarrow> jsval \<Rightarrow> string \<Rightarrow> error + tool_result" where
  "sendMessage_try net args token =
     (case destructure ''channel_id'' ''args'' args of
        Inl e \<Rightarrow> Inl e
      | Inr a \<Rightarrow>
          (case template (field a ''channel_id'') of
             Inl e \<Rightarrow> Inl e
           | Inr channel \<Rightarrow>
               (case makeDiscordRequest net (''channels/'' @ channel @ ''/messages'')
                       (Some ''POST'') (Some (object [(''content'', field a ''message'')])) token of
                  Inl e \<Rightarrow> Inl e
                | Inr data \<Rightarrow>
                    (case pick data [(''message_id'', ''id''), (''channel_id'', ''channel_id''),
                                     (''content'', ''content''), (''timestamp'', ''timestamp'')] of
                       Inl e \<Rightarrow> Inl e
                     | Inr kvs \<Rightarrow>
                         Inr \<lparr>content = [Stringified (object ((''message_sent'', Some (JBool True)) # kvs))],
                              isError = False\<rparr>))))"

definition sendMessage :: "upstream \<Rightarrow> jsval \<Rightarrow> string \<Rightarrow> tool_result" where
  "sendMessage net args token =
     (case sendMessage_try net args token of
        Inl e \<Rightarrow> soft_error ''Error sending message: '' e
      | Inr r \<Rightarrow> r)"

definition getChannelInfo_try :: "upstream \<Rightarrow> jsval \<Rightarrow> string \<Rightarrow> error + tool_result" where
  "getChannelInfo_try net args token =
     (case destructure ''channel_id'' ''args'' args of
        Inl e \<Rightarrow> Inl e
      | Inr a \<Rightarrow>
          (case template (field a ''channel_id'') of
             Inl e \<Rightarrow> Inl e
           | Inr channel \<Rightarrow>
               (case makeDiscordRequest net (''channels/'' @ channel) None None token of
                  Inl e \<Rightarrow> Inl e
                | Inr data \<Rightarrow>
                    (case pick data [(''id'', ''id''), (''name'', ''name''), (''type'', ''type''),
                                     (''guild_id'', ''guild_id''), (''position'', ''position''),
                                     (''topic'', ''topic''), (''nsfw'', ''nsfw''),
                                     (''last_message_id'', ''last_message_id''),
                                     (''bitrate'', ''bitrate''), (''user_limit'', ''user_limit''),
                                     (''rate_limit_per_user'', ''rate_limit_per_user'')] of
                       Inl e \<Rightarrow> Inl e
                     | Inr kvs \<Rightarrow>
                         Inr \<lparr>content = [Stringified (JObj [(''channel'', object kvs)])],
                              isError = False\<rparr>))))"

definition getChannelInfo :: "upstream \<Rightarrow> jsval \<Rightarrow> string \<Rightarrow> tool_result" where
  "getChannelInfo net args token =
     (case getChannelInfo_try net args token of
        Inl e \<Rightarrow> soft_error ''Error getting channel info: '' e
      | Inr r \<Rightarrow> r)"

definition getGuildInfo_try :: "upstream \<Rightarrow> jsval \<Rightarrow> string \<Rightarrow> error + tool_result" where
  "getGuildInfo_try net args token =
     (case destructure ''guild_id'' ''args'' args of
        Inl e \<Rightarrow> Inl e
      | Inr a \<Rightarrow>
          (case template (field a ''guild_id'') of
             Inl e \<Rightarrow> Inl e
           | Inr guild \<Rightarrow>
               (case makeDiscordRequest net (''guilds/'' @ guild) None None token of
                  Inl e \<Rightarrow> Inl e
                | Inr data \<Rightarrow>
                    (case pick data [(''id'', ''id''), (''name'', ''name''), (''icon'', ''icon''),
                                     (''owner_id'', ''owner_id''), (''permissions'', ''permissions''),
                                     (''region'', ''region''),
                                     (''member_count'', ''approximate_member_count''),
                                     (''presence_count'', ''approximate_presence_count''),
                                     (''features'', ''features''), (''premium_tier'', ''premium_tier''),
                                     (''premium_subscription_count'', ''premium_subscription_count''),
                                     (''preferred_locale'', ''preferred_locale''),
                                     (''nsfw_level'', ''nsfw_level''),
                                     (''verification_level'', ''verification_level'')] of
                       Inl e \<Rightarrow> Inl e
                     | Inr kvs \<Rightarrow>
                         Inr \<lparr>content = [Stringified (JObj [(''guild'', object kvs)])],
                              isError = False\<rparr>))))"

definition getGuildInfo :: "upstream \<Rightarrow> jsval \<Rightarrow> string \<Rightarrow> tool_result" where
  "getGuildInfo net args token =
     (case getGuildInfo_try net args token of
        Inl e \<Rightarrow> soft_error ''Error getting guild info: '' e
      | Inr r \<Rightarrow> r)"

text \<open>What \<open>throw new Error(`Unknown tool: ${name}`)\<close> throws.\<close>

definition unknown_tool :: "jsval \<Rightarrow> error" where
  "unknown_tool name =
     (case template name of
        Inl e \<Rightarrow> e
      | Inr n \<Rightarrow> Error (''Unknown tool: '' @ n))"

definition handleToolCall :: "upstream \<Rightarrow> jsval \<Rightarrow> env \<Rightarrow> error + tool_result" where
  "handleToolCall net params env =
     (case destructure_params params of
        Inl e \<Rightarrow> Inl e
      | Inr (name, args) \<Rightarrow>
          (case DISCORD_TOKEN env of
             None \<Rightarrow> Inl (Error ''DISCORD_TOKEN is required'')
           | Some discordToken \<Rightarrow>
               if discordToken = [] then Inl (Error ''DISCORD_TOKEN is required'')
               else if name = Some (JStr ''send_message'') then Inr (sendMessage net args discordToken)
               else if name = Some (JStr ''get_channel_info'') then Inr (getChannelInfo net args discordToken)
               else if name = Some (JStr ''get_guild_info'') then Inr (getGuildInfo net args discordToken)
               else Inl (unknown_tool name)))"

definition handleMCPRequest :: "upstream \<Rightarrow> json \<Rightarrow> env \<Rightarrow> (error + rpc_result) \<times> env" where
  "handleMCPRequest net request env =
     (case destructure_request request of
        Inl e \<Rightarrow> (Inl e, env)
      | Inr (method, params) \<Rightarrow>
          if method = Some (JStr ''initialize'') then (Inr (Static discord_initialize), env)
          else if method = Some (JStr ''tools/list'') then
            (Inr (Static (JObj [(''tools'', JArr discord_tools)])), env)
          else if method = Some (JStr ''tools/call'') then
            (case handleToolCall net params env of
               Inl e \<Rightarrow> (Inl e, env)
             | Inr r \<Rightarrow> (Inr (ToolCallResult r), env))
          else (Inl (unknown_method method), env))"

text \<open>
  The key gate of the Discord wrapper: with \<open>API_KEY\<close> or \<open>SERVICE_KEY\<close> set, the bearer
  key must be one of those set.
\<close>

definition push_if_set :: "string option \<Rightarrow> string list" where
  "push_if_set v = (case v of None \<Rightarrow> [] | Some k \<Rightarrow> if k = [] then [] else [k])"

definition key_gate :: "http_request \<Rightarrow> env \<Rightarrow> response option" where
  "key_gate request env =
     (if is_set (API_KEY env) \<or> is_set (SERVICE_KEY env) then
        (let validKeys = push_if_set (API_KEY env) @ push_if_set (SERVICE_KEY env)
         in case map_option (replace ''Bearer '' []) (Authorization request) of
              None \<Rightarrow> Some (unauthorized ''Unauthorized'')
            | Some providedKey \<Rightarrow>
                if providedKey = [] \<or> providedKey \<notin> set validKeys
                then Some (unauthorized ''Unauthorized'')
                else None)
      else None)"

definition discord_fetch :: "upstream \<Rightarrow> http_request \<Rightarrow> env \<Rightarrow> response \<times> env" where
  "discord_fetch net request env =
     (if http_method request = ''OPTIONS'' then (preflight, env)
      else
        (case key_gate request env of
           Some r \<Rightarrow> (r, env)
         | None \<Rightarrow>
             if http_method request = ''POST'' \<and> pathname request = ''/''
             then post_root (handleMCPRequest net) request env
             else if pathname request = ''/health'' then (health ''mcp-discord-server'', env)
             else (not_found, env)))"

section \<open>The filesystem wrapper\<close>

definition filesystem_initialize :: json where
  "filesystem_initialize =
     JObj [(''protocolVersion'', JStr ''2024-11-05''),
           (''capabilities'', JObj [(''tools'', JObj []), (''resources'', JObj [])]),
           (''serverInfo'', JObj [(''name'', JStr ''filesystem-server''), (''version'', JStr ''0.6.3'')])]"

definition filesystem_tools :: "json list" where
  "filesystem_tools =
     [JObj [(''name'', JStr ''read_file''),
            (''description'', JStr ''Read the complete contents of a file from the file system''),
            (''inputSchema'', JObj
               [(''type'', JStr ''object''),
                (''properties'', JObj
                   [(''path'', JObj [(''type'', JStr ''string''),
                                     (''description'', JStr ''The path of the file to read'')])]),
                (''required'', JArr [JStr ''path''])])],
      JObj [(''name'', JStr ''write_file''),
            (''description'', JStr ''Create a new file or completely overwrite an existing file with new content''),
            (''inputSchema'', JObj
               [(''type'', JStr ''object''),
                (''properties'', JObj
                   [(''path'', JObj [(''type'', JStr ''string''),
                                     (''description'', JStr ''The path of the file to write'')]),
                    (''content'', JObj [(''type'', JStr ''string''),
                                        (''description'', JStr ''The content to write to the file'')])]),
                (''required'', JArr [JStr ''path'', JStr ''content''])])]]"

definition handleFilesystemToolCall :: "jsval \<Rightarrow> env \<Rightarrow> error + tool_result" where
  "handleFilesystemToolCall params env =
     (case destructure_params params of
        Inl e \<Rightarrow> Inl e
      | Inr (name, args) \<Rightarrow>
          if name = Some (JStr ''read_file'') then
            Inr \<lparr>content = [Text ''File operations in Workers require adaptation to cloud storage APIs''],
                 isError = False\<rparr>
          else if name = Some (JStr ''write_file'') then
            Inr \<lparr>content = [Text ''File write operations in Workers require adaptation to cloud storage APIs''],
                 isError = False\<rparr>
          else Inl (unknown_tool name))"

definition handleFilesystemRequest :: "json \<Rightarrow> env \<Rightarrow> (error + rpc_result) \<times> env" where
  "handleFilesystemRequest request env =
     (case destructure_request request of
        Inl e \<Rightarrow> (Inl e, env)
      | Inr (method, params) \<Rightarrow>
          if method = Some (JStr ''initialize'') then (Inr (Static filesystem_initialize), env)
          else if method = Some (JStr ''tools/list'') then
            (Inr (Static (JObj [(''tools'', JArr filesystem_tools)])), env)
          else if method = Some (JStr ''tools/call'') then
            (case handleFilesystemToolCall params env of
               Inl e \<Rightarrow> (Inl e, env)
             | Inr r \<Rightarrow> (Inr (ToolCallResult r), env))
          else (Inl (unknown_method method), env))"

text \<open>The inner \<open>catch\<close> of the filesystem wrapper: a fixed message, and \<open>id: body.id || null\<close>.\<close>

definition integration_in_progress :: "json \<Rightarrow> response" where
  "integration_in_progress body =
     \<lparr>status = 500, cors = True,
      payload = Failure (- 32603) ''Server integration in progress''
                  (Some ''Original TypeScript server needs adaptation for Workers'')
                  (or_else (body_id body) JNull)\<rparr>"

text \<open>
  The \<open>POST /\<close> branch of the filesystem wrapper. \<open>dist\<close> is the outcome of
  \<open>await import('../dist/index.js')\<close>, a build product that is not part of the sources:
  \<open>Some e\<close> when the import throws \<open>e\<close>.
\<close>

definition filesystem_post_root :: "error option \<Rightarrow> http_request \<Rightarrow> env \<Rightarrow> response \<times> env" where
  "filesystem_post_root dist request env =
     (case json_body request of
        Inl e \<Rightarrow> (internal_error e, env)
      | Inr body \<Rightarrow>
          (case invalid_marker body of
             Inl e \<Rightarrow> (internal_error e, env)
           | Inr True \<Rightarrow> (invalid_request body, env)
           | Inr False \<Rightarrow>
               (case dist of
                  Some e \<Rightarrow> (integration_in_progress body, env)
                | None \<Rightarrow>
                    (case handleFilesystemRequest body env of
                       (Inl e, env') \<Rightarrow> (integration_in_progress body, env')
                     | (Inr result, env') \<Rightarrow> (success result body, env')))))"

definition filesystem_fetch :: "error option \<Rightarrow> http_request \<Rightarrow> env \<Rightarrow> response \<times> env" where
  "filesystem_fetch dist request env =
     (if http_method request = ''OPTIONS'' then (preflight, env)
      else
        (case jwt_gate request env of
           Some r \<Rightarrow> (r, env)
         | None \<Rightarrow>
             if pathname request = ''/health'' then (health ''mcp-filesystem-server'', env)
             else if http_method request = ''POST'' \<and> pathname request = ''/''
             then filesystem_post_root dist request env
             else (not_found, env)))"

section \<open>Concrete requests and environments\<close>

text \<open>An environment with nothing bound, and one with a bot token.\<close>

definition no_bindings :: env where
  "no_bindings =
     \<lparr>JWT_SECRET = None, API_KEY = None, SERVICE_KEY = None, DISCORD_TOKEN = None,
      MEMORY_KV = None, THINKING_KV = None\<rparr>"

definition with_token :: env where
  "with_token = no_bindings\<lparr>DISCORD_TOKEN := Some ''bot-token''\<rparr>"

text \<open>\<open>POST /\<close> with a JSON body and no headers.\<close>

definition post :: "json \<Rightarrow> http_request" where
  "post body =
     \<lparr>http_method = ''POST'', pathname = ''/'', Authorization = None, X_User_Id = None,
      json_body = Inr body\<rparr>"

text \<open>The envelope \<open>{jsonrpc, method, id}\<close>, and a \<open>tools/call\<close> envelope.\<close>

definition rpc :: "string \<Rightarrow> string \<Rightarrow> json \<Rightarrow> json" where
  "rpc marker method i = JObj [(''jsonrpc'', JStr marker), (''method'', JStr method), (''id'', i)]"

definition tool_call :: "string \<Rightarrow> json \<Rightarrow> json \<Rightarrow> json" where
  "tool_call name args i =
     JObj [(''jsonrpc'', JStr ''2.0''), (''method'', JStr ''tools/call''),
           (''params'', JObj [(''name'', JStr name), (''arguments'', args)]), (''id'', i)]"

definition noon :: clock where
  "noon = \<lparr>date_now = 1700000000000, iso_created = ''2023-11-14T22:13:20.000Z'',
           iso_timestamp = ''2023-11-14T22:13:20.000Z'', iso_updated = ''2023-11-14T22:13:20.001Z''\<rparr>"

text \<open>An upstream that answers every request with 403.\<close>

definition forbidden :: upstream where
  "forbidden request =
     Inr \<lparr>up_status = 403, statusText = ''Forbidden'', body_text = ''Missing Access'',
          body_json = Inl (SyntaxError ''Unexpected token M in JSON at position 0'')\<rparr>"

text \<open>An envelope whose method is an object with a property \<open>toString\<close> of its own.\<close>

definition odd_method :: json where
  "odd_method =
     JObj [(''jsonrpc'', JStr ''2.0''), (''method'', JObj [(''toString'', JNum ''0'')]),
           (''id'', JNum ''3'')]"

text \<open>A \<open>tools/call\<close> envelope whose \<open>params\<close> is \<open>null\<close>.\<close>

definition null_params :: json where
  "null_params =
     JObj [(''jsonrpc'', JStr ''2.0''), (''method'', JStr ''tools/call''), (''params'', JNull),
           (''id'', JNum ''1'')]"

text \<open>A bound, empty memory namespace.\<close>

definition memory_bound :: env where
  "memory_bound = no_bindings\<lparr>MEMORY_KV := Some Map.empty\<rparr>"


definition three_descriptors :: json where
  "three_descriptors =
     JObj [(''entities'', JArr
        [JObj [(''name'', JStr ''x''), (''entityType'', JStr ''person'')],
         JObj [(''name'', JStr ''y''), (''entityType'', JStr ''place'')],
         JObj [(''name'', JStr ''x''), (''entityType'', JStr ''tool'')]])]"


text \<open>Arguments of \<open>create_entities\<close> with a name that has a \<open>toString\<close> of its own.\<close>

definition odd_name :: json where
  "odd_name =
     JObj [(''entities'', JArr
        [JObj [(''name'', JObj [(''toString'', JNum ''0'')]), (''entityType'', JStr ''person'')]])]"



text \<open>A thinking namespace that holds a session of one step under \<open>thinking:default:s1\<close>.\<close>

definition one_step_session :: session where
  "one_step_session =
     \<lparr>session_id = JStr ''s1'', created = ''2023-11-14T22:00:00.000Z'',
      steps = [\<lparr>step_id = ''step_1'', query = Some (JStr ''why''),
                timestamp = ''2023-11-14T22:00:00.000Z'', thinking = ''Analyzing: why'',
                conclusion = ''This requires further analysis through structured thinking.''\<rparr>],
      updated = Some ''2023-11-14T22:00:00.000Z''\<rparr>"

definition thinking_bound :: env where
  "thinking_bound =
     no_bindings\<lparr>THINKING_KV := Some [''thinking:default:s1'' \<mapsto> one_step_session]\<rparr>"

definition think_again :: json where
  "think_again = JObj [(''session_id'', JStr ''s1''), (''query'', JStr ''how'')]"

text \<open>A \<open>send_message\<close> call.\<close>

definition send_hello :: json where
  "send_hello =
     tool_call ''send_message''
       (JObj [(''channel_id'', JStr ''42''), (''message'', JStr ''hello'')]) (JNum ''5'')"

section \<open>Notions the properties are stated with\<close>

text \<open>\<open>params.name\<close> is a string that names a tool of the table.\<close>

definition names_tool :: "json list \<Rightarrow> jsval \<Rightarrow> bool" where
  "names_tool tools params =
     (case get_prop params ''name'' of
        Inr (Some (JStr n)) \<Rightarrow> n \<in> set (tool_names tools)
      | _ \<Rightarrow> False)"

text \<open>The response carries a JSON-RPC error envelope.\<close>

definition failure :: "response \<Rightarrow> bool" where
  "failure r = (case payload r of Failure c m d i \<Rightarrow> True | _ \<Rightarrow> False)"

text \<open>
  The response is the answer of the outer \<open>catch\<close> to the exception \<open>e\<close>: status 500, code
  -32603, \<open>Internal error\<close>, and the exception's message as \<open>data\<close>. Its id is left open.
\<close>

definition answers_internal_error :: "error \<Rightarrow> response \<Rightarrow> bool" where
  "answers_internal_error e r =
     (status r = 500 \<and>
      (case payload r of
         Failure c m d i \<Rightarrow> c = - 32603 \<and> m = ''Internal error'' \<and> d = Some (message e)
       | _ \<Rightarrow> False))"

text \<open>The response is the answer of the filesystem wrapper's inner \<open>catch\<close>; its id is left open.\<close>

definition answers_in_progress :: "response \<Rightarrow> bool" where
  "answers_in_progress r =
     (status r = 500 \<and>
      (case payload r of
         Failure c m d i \<Rightarrow>
           c = - 32603 \<and> m = ''Server integration in progress'' \<and>
           d = Some ''Original TypeScript server needs adaptation for Workers''
       | _ \<Rightarrow> False))"

text \<open>The outcome is a thrown \<open>TypeError\<close>.\<close>

definition throws_type_error :: "error + 'a \<Rightarrow> bool" where
  "throws_type_error r = (case r of Inl (TypeError m) \<Rightarrow> True | _ \<Rightarrow> False)"

text \<open>A value converts to a string; and the string, where it does.\<close>

definition renders :: "jsval \<Rightarrow> bool" where
  "renders v = (case template v of Inl e \<Rightarrow> False | Inr t \<Rightarrow> True)"

definition rendered :: "jsval \<Rightarrow> string" where
  "rendered v = (case template v of Inl e \<Rightarrow> [] | Inr t \<Rightarrow> t)"




text \<open>The graph and the session stored under a key, if any.\<close>

definition stored_graph :: "string \<Rightarrow> env \<Rightarrow> graph option" where
  "stored_graph k env = (case MEMORY_KV env of None \<Rightarrow> None | Some kv \<Rightarrow> kv k)"

definition stored_session :: "string \<Rightarrow> env \<Rightarrow> session option" where
  "stored_session k env = (case THINKING_KV env of None \<Rightarrow> None | Some kv \<Rightarrow> kv k)"

text \<open>
  The \<open>query\<close> argument of a call, and whether a call continues the session \<open>sid\<close>: it
  names the session and its query converts to a string.
\<close>

definition arg_query :: "jsval \<Rightarrow> jsval" where
  "arg_query args = (case get_prop args ''query'' of Inl err \<Rightarrow> None | Inr q \<Rightarrow> q)"

definition continues :: "string \<Rightarrow> jsval \<Rightarrow> bool" where
  "continues sid args =
     (sid \<noteq> [] \<and> get_prop args ''session_id'' = Inr (Some (JStr sid)) \<and> renders (arg_query args))"

text \<open>
  The \<open>sequential_thinking\<close> branch run for a caller on a list of calls, each with its
  clock readings and arguments, in order; and the steps these calls are to append to a
  session of \<open>n\<close> steps.
\<close>

fun think_all :: "string \<Rightarrow> (clock \<times> jsval) list \<Rightarrow> env \<Rightarrow> env" where
  "think_all userId [] env = env"
| "think_all userId ((clk, args) # calls) env =
     think_all userId calls (snd (sequential_thinking clk userId args env))"

fun new_steps :: "nat \<Rightarrow> (clock \<times> jsval) list \<Rightarrow> step list" where
  "new_steps n [] = []"
| "new_steps n ((clk, args) # calls) =
     \<lparr>step_id = ''step_'' @ show_nat (n + 1),
      query = arg_query args,
      timestamp = iso_timestamp clk,
      thinking = ''Analyzing: '' @ rendered (arg_query args),
      conclusion = ''This requires further analysis through structured thinking.''\<rparr>
     # new_steps (n + 1) calls"

section \<open>Evaluation and helper lemmas\<close>

lemmas fixture_defs = no_bindings_def with_token_def post_def rpc_def tool_call_def
  memory_bound_def thinking_bound_def

lemmas dispatch_defs = memory_fetch_def thinking_fetch_def
  discord_fetch_def filesystem_fetch_def jwt_gate_def key_gate_def is_set_def post_root_def
  filesystem_post_root_def invalid_marker_def get_prop_def invalid_request_def body_id_def
  or_else_def internal_error_def success_def integration_in_progress_def
  destructure_request_def destructure_params_def destructure_def quoted_def
  unknown_method_def unknown_tool_def
  template_def handleMemoryRequest_def handleThinkingRequest_def handleMCPRequest_def
  handleFilesystemRequest_def handleMemoryToolCall_def handleThinkingToolCall_def
  handleToolCall_def handleFilesystemToolCall_def request_in_scope_def

lemma tool_names_memory:
  "tool_names memory_tools =
     [''create_entities'', ''create_relations'', ''add_observations'', ''search_entities'',
      ''read_graph'']"
  by (simp add: tool_names_def memory_tools_def get_prop_def)

lemma tool_names_thinking:
  "tool_names thinking_tools =
     [''sequential_thinking'', ''get_thinking_session'', ''list_sessions'', ''clear_session'']"
  by (simp add: tool_names_def thinking_tools_def get_prop_def)

lemma tool_names_discord:
  "tool_names discord_tools = [''send_message'', ''get_channel_info'', ''get_guild_info'']"
  by (simp add: tool_names_def discord_tools_def get_prop_def)

lemma tool_names_filesystem:
  "tool_names filesystem_tools = [''read_file'', ''write_file'']"
  by (simp add: tool_names_def filesystem_tools_def get_prop_def)

lemma destructure_cases:
  "destructure first var v = Inr j \<longleftrightarrow> v = Some j \<and> j \<noteq> JNull"
  by (auto simp: destructure_def split: option.splits json.splits)

lemma destructure_nullish:
  "v = None \<or> v = Some JNull \<Longrightarrow> throws_type_error (destructure first var v)"
  by (auto simp: destructure_def throws_type_error_def)

lemma get_prop_cases: "get_prop v k = Inr x \<longleftrightarrow> (\<exists>j. v = Some j \<and> j \<noteq> JNull \<and> x = field j k)"
  by (auto simp: get_prop_def split: option.splits json.splits)

lemma memory_call_throws: "\<exists>e. handleMemoryToolCall params env = (Inl e, env)"
  by (auto simp: handleMemoryToolCall_def request_in_scope_def split: sum.splits)

lemma thinking_call_throws: "\<exists>e. handleThinkingToolCall clk params env = (Inl e, env)"
  by (auto simp: handleThinkingToolCall_def request_in_scope_def split: sum.splits)

lemma discord_unknown_throws:
  assumes "\<not> names_tool discord_tools params"
  shows "\<exists>e. handleToolCall net params env = Inl e"
proof (cases "destructure_params params")
  case (Inl e)
  then show ?thesis by (simp add: handleToolCall_def)
next
  case (Inr na)
  obtain name args where na: "na = (name, args)" by (cases na)
  from Inr na obtain p where p: "params = Some p" "p \<noteq> JNull" "name = field p ''name''"
    by (auto simp: destructure_params_def destructure_cases split: sum.splits)
  have "name \<noteq> Some (JStr ''send_message'')" "name \<noteq> Some (JStr ''get_channel_info'')"
    "name \<noteq> Some (JStr ''get_guild_info'')"
    using assms p by (auto simp: names_tool_def tool_names_discord get_prop_def split: json.splits)
  with Inr na show ?thesis
    by (simp add: handleToolCall_def split: option.splits)
qed

lemma filesystem_unknown_throws:
  assumes "\<not> names_tool filesystem_tools params"
  shows "\<exists>e. handleFilesystemToolCall params env = Inl e"
proof (cases "destructure_params params")
  case (Inl e)
  then show ?thesis by (simp add: handleFilesystemToolCall_def)
next
  case (Inr na)
  obtain name args where na: "na = (name, args)" by (cases na)
  from Inr na obtain p where p: "params = Some p" "p \<noteq> JNull" "name = field p ''name''"
    by (auto simp: destructure_params_def destructure_cases split: sum.splits)
  have "name \<noteq> Some (JStr ''read_file'')" "name \<noteq> Some (JStr ''write_file'')"
    using assms p by (auto simp: names_tool_def tool_names_filesystem get_prop_def split: json.splits)
  with Inr na show ?thesis
    by (simp add: handleFilesystemToolCall_def)
qed

lemma failure_simps:
  "failure (internal_error e)" "failure (invalid_request b)" "failure (unauthorized m)"
  "failure (integration_in_progress b)"
  by (simp_all add: failure_def internal_error_def invalid_request_def unauthorized_def
      integration_in_progress_def)

lemma jwt_gate_failure: "jwt_gate request env = Some r \<Longrightarrow> failure r"
  by (auto simp: jwt_gate_def failure_simps split: if_splits option.splits)

lemma key_gate_failure: "key_gate request env = Some r \<Longrightarrow> failure r"
  by (auto simp: key_gate_def Let_def failure_simps split: if_splits option.splits)

lemma post_root_throw:
  assumes "json_body request = Inr body" and "handle body env = (Inl e, env')"
  shows "failure (fst (post_root handle request env))"
  using assms
  by (auto simp: post_root_def failure_simps split: sum.splits bool.splits)

lemma answers_internal_error_simp: "answers_internal_error e (internal_error e)"
  by (simp add: answers_internal_error_def internal_error_def)

lemma answers_in_progress_simp: "answers_in_progress (integration_in_progress body)"
  by (simp add: answers_in_progress_def integration_in_progress_def)


lemma show_403: "show_nat 403 = ''403''"
  by (simp add: show_nat.simps digit_def)

section \<open>Unknown tools\<close>

text \<open>
  C1. A \<open>tools/call\<close> request (a \<open>POST /\<close> whose parsed body has the method
  \<open>tools/call\<close>) whose \<open>params.name\<close> is not in the server's tool table is answered with a
  JSON-RPC error envelope, by each of the four dispatchers: never with a result. The
  Discord and filesystem dispatchers throw \<open>Unknown tool\<close>; the memory and
  sequential-thinking handlers throw before they look at the name, so their closing
  \<open>Tool ... is being implemented\<close> result is not reached.
\<close>

theorem unknown_tool_is_an_error:
  assumes "http_method request = ''POST''" and "pathname request = ''/''"
    and "json_body request = Inr body"
    and "destructure_request body = Inr (Some (JStr ''tools/call''), params)"
  shows "(\<not> names_tool memory_tools params \<longrightarrow> failure (fst (memory_fetch request env))) \<and>
         (\<not> names_tool thinking_tools params \<longrightarrow> failure (fst (thinking_fetch clk request env))) \<and>
         (\<not> names_tool discord_tools params \<longrightarrow> failure (fst (discord_fetch net request env))) \<and>
         (\<not> names_tool filesystem_tools params \<longrightarrow> failure (fst (filesystem_fetch dist request env)))"
proof (intro conjI impI)
  obtain e where "handleMemoryToolCall params env = (Inl e, env)"
    using memory_call_throws by blast
  then have "handleMemoryRequest body env = (Inl e, env)"
    using assms(4) by (simp add: handleMemoryRequest_def)
  then have "failure (fst (post_root handleMemoryRequest request env))"
    using assms(3) by (rule post_root_throw [rotated])
  then show "failure (fst (memory_fetch request env))"
    using assms(1,2) by (auto simp: memory_fetch_def dest: jwt_gate_failure split: option.splits)
next
  obtain e where "handleThinkingToolCall clk params env = (Inl e, env)"
    using thinking_call_throws by blast
  then have "handleThinkingRequest clk body env = (Inl e, env)"
    using assms(4) by (simp add: handleThinkingRequest_def)
  then have "failure (fst (post_root (handleThinkingRequest clk) request env))"
    using assms(3) by (rule post_root_throw [rotated])
  then show "failure (fst (thinking_fetch clk request env))"
    using assms(1,2) by (auto simp: thinking_fetch_def dest: jwt_gate_failure split: option.splits)
next
  assume "\<not> names_tool discord_tools params"
  then obtain e where "handleToolCall net params env = Inl e"
    using discord_unknown_throws by blast
  then have "handleMCPRequest net body env = (Inl e, env)"
    using assms(4) by (simp add: handleMCPRequest_def)
  then have "failure (fst (post_root (handleMCPRequest net) request env))"
    using assms(3) by (rule post_root_throw [rotated])
  then show "failure (fst (discord_fetch net request env))"
    using assms(1,2) by (auto simp: discord_fetch_def dest: key_gate_failure split: option.splits)
next
  assume "\<not> names_tool filesystem_tools params"
  then obtain e where "handleFilesystemToolCall params env = Inl e"
    using filesystem_unknown_throws by blast
  then have "handleFilesystemRequest body env = (Inl e, env)"
    using assms(4) by (simp add: handleFilesystemRequest_def)
  then have "failure (fst (filesystem_post_root dist request env))"
    using assms(3)
    by (auto simp: filesystem_post_root_def failure_simps split: sum.splits bool.splits option.splits)
  then show "failure (fst (filesystem_fetch dist request env))"
    using assms(1,2) by (auto simp: filesystem_fetch_def dest: jwt_gate_failure split: option.splits)
qed

theorem unknown_tool_is_an_error_witness:
  "failure (fst (memory_fetch (post (tool_call ''delete_graph'' (JObj []) (JNum ''1''))) with_token)) \<and>
   failure (fst (thinking_fetch noon (post (tool_call ''delete_graph'' (JObj []) (JNum ''1''))) with_token)) \<and>
   failure (fst (discord_fetch forbidden (post (tool_call ''delete_graph'' (JObj []) (JNum ''1''))) with_token)) \<and>
   failure (fst (filesystem_fetch None (post (tool_call ''delete_graph'' (JObj []) (JNum ''1''))) with_token))"
  using unknown_tool_is_an_error [of "post (tool_call ''delete_graph'' (JObj []) (JNum ''1''))"
      "tool_call ''delete_graph'' (JObj []) (JNum ''1'')"
      "Some (JObj [(''name'', JStr ''delete_graph''), (''arguments'', JObj [])])"
      with_token noon forbidden None]
  by (simp add: fixture_defs destructure_request_def destructure_def get_prop_def names_tool_def
      tool_names_memory tool_names_thinking tool_names_discord tool_names_filesystem)

section \<open>The envelope check and the echoed id\<close>

text \<open>
  C2. A \<open>POST /\<close> whose body carries a marker other than \<open>"2.0"\<close> is answered with status
  400 and code -32600, but the id is \<open>body.id || null\<close>: the request ids \<open>0\<close> and \<open>""\<close>
  come back as \<open>null\<close>, where the success path answers with \<open>body.id\<close> itself. A body
  that is the JSON \<open>null\<close> has no marker either, and is answered by the outer \<open>catch\<close>.
\<close>

theorem invalid_request_drops_falsy_id:
  "fst (memory_fetch (post (rpc ''1.0'' ''initialize'' (JNum ''0''))) no_bindings) =
     \<lparr>status = 400, cors = True, payload = Failure (- 32600) ''Invalid Request'' None JNull\<rparr> \<and>
   fst (thinking_fetch noon (post (rpc ''1.0'' ''initialize'' (JStr []))) no_bindings) =
     \<lparr>status = 400, cors = True, payload = Failure (- 32600) ''Invalid Request'' None JNull\<rparr> \<and>
   body_id (rpc ''1.0'' ''initialize'' (JNum ''0'')) = Some (JNum ''0'') \<and>
   body_id (rpc ''1.0'' ''initialize'' (JStr [])) = Some (JStr []) \<and>
   fst (memory_fetch (post (rpc ''2.0'' ''initialize'' (JNum ''0''))) no_bindings) =
     \<lparr>status = 200, cors = True, payload = Result (Static memory_initialize) (Some (JNum ''0''))\<rparr> \<and>
   fst (memory_fetch (post JNull) no_bindings) =
     \<lparr>status = 500, cors = True,
      payload = Failure (- 32603) ''Internal error''
                  (Some ''Cannot read properties of null (reading 'jsonrpc')'') JNull\<rparr>"
  by (simp add: fixture_defs dispatch_defs)

text \<open>
  C3. When the dispatcher throws after the body was parsed, the outer \<open>catch\<close> answers
  with \<open>id: null\<close>: the request id 7 is not echoed. (The inner \<open>catch\<close> of the filesystem
  wrapper does answer with the body's id.)
\<close>

theorem thrown_dispatch_answers_null_id:
  "fst (memory_fetch (post (rpc ''2.0'' ''resources/list'' (JNum ''7''))) no_bindings) =
     \<lparr>status = 500, cors = True,
      payload = Failure (- 32603) ''Internal error'' (Some ''Unknown method: resources/list'') JNull\<rparr> \<and>
   fst (thinking_fetch noon (post (rpc ''2.0'' ''resources/list'' (JNum ''7''))) no_bindings) =
     \<lparr>status = 500, cors = True,
      payload = Failure (- 32603) ''Internal error'' (Some ''Unknown method: resources/list'') JNull\<rparr> \<and>
   fst (discord_fetch forbidden (post (rpc ''2.0'' ''resources/list'' (JNum ''7''))) no_bindings) =
     \<lparr>status = 500, cors = True,
      payload = Failure (- 32603) ''Internal error'' (Some ''Unknown method: resources/list'') JNull\<rparr> \<and>
   body_id (rpc ''2.0'' ''resources/list'' (JNum ''7'')) = Some (JNum ''7'')"
  by (simp add: fixture_defs dispatch_defs)

section \<open>The undeclared \<open>request\<close>\<close>

text \<open>
  C4, as stated, at a \<open>tools/call\<close> whose \<open>params\<close> is missing or \<open>null\<close>: the handlers
  fail with the \<open>TypeError\<close> of the destructuring of \<open>params\<close>, one statement before the
  reference to \<open>request\<close>, and not with its \<open>ReferenceError\<close>.
\<close>

theorem missing_params_fail_at_destructuring:
  "throws_type_error (fst (handleMemoryToolCall None no_bindings)) \<and>
   throws_type_error (fst (handleMemoryToolCall (Some JNull) no_bindings)) \<and>
   throws_type_error (fst (handleThinkingToolCall noon None no_bindings)) \<and>
   throws_type_error (fst (handleThinkingToolCall noon (Some JNull) no_bindings)) \<and>
   fst (handleMemoryToolCall None no_bindings) \<noteq> Inl (ReferenceError ''request is not defined'') \<and>
   fst (handleThinkingToolCall noon None no_bindings) \<noteq>
     Inl (ReferenceError ''request is not defined'') \<and>
   throws_type_error (fst (handleMemoryRequest (rpc ''2.0'' ''tools/call'' (JNum ''1'')) no_bindings)) \<and>
   throws_type_error (fst (handleMemoryRequest null_params no_bindings))"
  by (simp add: throws_type_error_def handleMemoryToolCall_def handleThinkingToolCall_def
      handleMemoryRequest_def destructure_request_def destructure_params_def destructure_def
      rpc_def null_params_def)

text \<open>
  C4, amended. For every \<open>tools/call\<close> request to the memory and the sequential-thinking
  wrapper, the tool handler throws before it reaches a tool branch, the environment is
  left as it was, and the outer \<open>catch\<close> answers with status 500, code -32603 and the
  exception's message. The throw is the \<open>ReferenceError\<close> of the undeclared \<open>request\<close>
  when \<open>params\<close> is neither missing nor \<open>null\<close>, and otherwise the \<open>TypeError\<close> of the
  destructuring of \<open>params\<close>.
\<close>

theorem tool_call_fails_before_any_branch:
  assumes "json_body request = Inr body"
    and "get_prop (Some body) ''jsonrpc'' = Inr (Some (JStr ''2.0''))"
    and "destructure_request body = Inr (Some (JStr ''tools/call''), params)"
  shows "\<exists>e. handleMemoryToolCall params env = (Inl e, env) \<and>
             handleThinkingToolCall clk params env = (Inl e, env) \<and>
             answers_internal_error e (fst (post_root handleMemoryRequest request env)) \<and>
             snd (post_root handleMemoryRequest request env) = env \<and>
             answers_internal_error e (fst (post_root (handleThinkingRequest clk) request env)) \<and>
             snd (post_root (handleThinkingRequest clk) request env) = env \<and>
             (params \<noteq> None \<and> params \<noteq> Some JNull \<longrightarrow>
                e = ReferenceError ''request is not defined'') \<and>
             (params = None \<or> params = Some JNull \<longrightarrow>
                throws_type_error (fst (handleMemoryToolCall params env)) \<and>
                throws_type_error (fst (handleThinkingToolCall clk params env)))"
proof -
  define e where "e = (case destructure_params params of Inl x \<Rightarrow> x
                       | Inr y \<Rightarrow> ReferenceError ''request is not defined'')"
  have m: "handleMemoryToolCall params env = (Inl e, env)"
    by (auto simp: e_def handleMemoryToolCall_def request_in_scope_def split: sum.splits)
  have t: "handleThinkingToolCall clk params env = (Inl e, env)"
    by (auto simp: e_def handleThinkingToolCall_def request_in_scope_def split: sum.splits)
  have marker: "invalid_marker body = Inr False"
    using assms(2) by (simp add: invalid_marker_def)
  have "handleMemoryRequest body env = (Inl e, env)"
    using assms(3) m by (simp add: handleMemoryRequest_def)
  then have pm: "post_root handleMemoryRequest request env = (internal_error e, env)"
    using assms(1) marker by (simp add: post_root_def)
  have "handleThinkingRequest clk body env = (Inl e, env)"
    using assms(3) t by (simp add: handleThinkingRequest_def)
  then have pt: "post_root (handleThinkingRequest clk) request env = (internal_error e, env)"
    using assms(1) marker by (simp add: post_root_def)
  have present: "params \<noteq> None \<and> params \<noteq> Some JNull \<longrightarrow>
      e = ReferenceError ''request is not defined''"
    by (auto simp: e_def destructure_params_def destructure_def
        split: sum.splits option.splits json.splits)
  have nullish: "params = None \<or> params = Some JNull \<longrightarrow>
      throws_type_error (fst (handleMemoryToolCall params env)) \<and>
      throws_type_error (fst (handleThinkingToolCall clk params env))"
    unfolding m t
    by (auto simp: e_def destructure_params_def destructure_def throws_type_error_def)
  show ?thesis
    using m t present nullish
    by (intro exI [of _ e]) (simp add: pm pt answers_internal_error_simp)
qed

theorem tool_call_fails_before_any_branch_witness:
  "(\<exists>e. handleMemoryToolCall (Some (JObj [(''name'', JStr ''read_graph''), (''arguments'', JObj [])]))
            no_bindings = (Inl e, no_bindings) \<and>
        handleThinkingToolCall noon (Some (JObj [(''name'', JStr ''read_graph''), (''arguments'', JObj [])]))
            no_bindings = (Inl e, no_bindings) \<and>
        answers_internal_error e
          (fst (post_root handleMemoryRequest (post (tool_call ''read_graph'' (JObj []) (JNum ''1'')))
                  no_bindings)) \<and>
        answers_internal_error e
          (fst (post_root (handleThinkingRequest noon)
                  (post (tool_call ''read_graph'' (JObj []) (JNum ''1''))) no_bindings)) \<and>
        e = ReferenceError ''request is not defined'') \<and>
   (\<exists>e. answers_internal_error e (fst (post_root handleMemoryRequest (post null_params) no_bindings)) \<and>
        throws_type_error (fst (handleMemoryToolCall (Some JNull) no_bindings)) \<and>
        throws_type_error (fst (handleThinkingToolCall noon (Some JNull) no_bindings)))"
proof -
  have b1: "json_body (post (tool_call ''read_graph'' (JObj []) (JNum ''1''))) =
      Inr (tool_call ''read_graph'' (JObj []) (JNum ''1''))"
    by (simp add: post_def)
  have b2: "get_prop (Some (tool_call ''read_graph'' (JObj []) (JNum ''1''))) ''jsonrpc'' =
      Inr (Some (JStr ''2.0''))"
    by (simp add: tool_call_def get_prop_def)
  have b3: "destructure_request (tool_call ''read_graph'' (JObj []) (JNum ''1'')) =
      Inr (Some (JStr ''tools/call''),
           Some (JObj [(''name'', JStr ''read_graph''), (''arguments'', JObj [])]))"
    by (simp add: tool_call_def destructure_request_def destructure_def)
  have n1: "json_body (post null_params) = Inr null_params"
    by (simp add: post_def)
  have n2: "get_prop (Some null_params) ''jsonrpc'' = Inr (Some (JStr ''2.0''))"
    by (simp add: null_params_def get_prop_def)
  have n3: "destructure_request null_params = Inr (Some (JStr ''tools/call''), Some JNull)"
    by (simp add: null_params_def destructure_request_def destructure_def)
  from tool_call_fails_before_any_branch [OF b1 b2 b3, of no_bindings noon]
  have first: "\<exists>e. handleMemoryToolCall (Some (JObj [(''name'', JStr ''read_graph''), (''arguments'', JObj [])]))
            no_bindings = (Inl e, no_bindings) \<and>
        handleThinkingToolCall noon (Some (JObj [(''name'', JStr ''read_graph''), (''arguments'', JObj [])]))
            no_bindings = (Inl e, no_bindings) \<and>
        answers_internal_error e
          (fst (post_root handleMemoryRequest (post (tool_call ''read_graph'' (JObj []) (JNum ''1'')))
                  no_bindings)) \<and>
        answers_internal_error e
          (fst (post_root (handleThinkingRequest noon)
                  (post (tool_call ''read_graph'' (JObj []) (JNum ''1''))) no_bindings)) \<and>
        e = ReferenceError ''request is not defined''"
    by auto
  from tool_call_fails_before_any_branch [OF n1 n2 n3, of no_bindings noon]
  have second: "\<exists>e. answers_internal_error e
          (fst (post_root handleMemoryRequest (post null_params) no_bindings)) \<and>
        throws_type_error (fst (handleMemoryToolCall (Some JNull) no_bindings)) \<and>
        throws_type_error (fst (handleThinkingToolCall noon (Some JNull) no_bindings))"
    by auto
  from first second show ?thesis by (rule conjI)
qed

section \<open>The tool tables\<close>

text \<open>
  C8. \<open>tools/list\<close> answers with the server's tool table and leaves the environment as it
  was; the answer does not depend on the rest of the request, on the environment, on the
  clock or on the upstream, so any two calls, whatever happened in between, answer alike.
\<close>

theorem tools_list_is_static:
  assumes "destructure_request body = Inr (Some (JStr ''tools/list''), params)"
    and "destructure_request body' = Inr (Some (JStr ''tools/list''), params')"
  shows "handleMemoryRequest body env = (Inr (Static (JObj [(''tools'', JArr memory_tools)])), env) \<and>
         handleThinkingRequest clk body env = (Inr (Static (JObj [(''tools'', JArr thinking_tools)])), env) \<and>
         handleMCPRequest net body env = (Inr (Static (JObj [(''tools'', JArr discord_tools)])), env) \<and>
         handleFilesystemRequest body env = (Inr (Static (JObj [(''tools'', JArr filesystem_tools)])), env) \<and>
         fst (handleMemoryRequest body' env') = fst (handleMemoryRequest body env) \<and>
         fst (handleThinkingRequest clk' body' env') = fst (handleThinkingRequest clk body env) \<and>
         fst (handleMCPRequest net' body' env') = fst (handleMCPRequest net body env) \<and>
         fst (handleFilesystemRequest body' env') = fst (handleFilesystemRequest body env)"
  using assms
  by (simp add: handleMemoryRequest_def handleThinkingRequest_def handleMCPRequest_def
      handleFilesystemRequest_def)

theorem tools_list_is_static_witness:
  "handleMemoryRequest (rpc ''2.0'' ''tools/list'' (JNum ''1'')) no_bindings =
     (Inr (Static (JObj [(''tools'', JArr memory_tools)])), no_bindings) \<and>
   handleThinkingRequest noon (rpc ''2.0'' ''tools/list'' (JNum ''1'')) no_bindings =
     (Inr (Static (JObj [(''tools'', JArr thinking_tools)])), no_bindings) \<and>
   handleMCPRequest forbidden (rpc ''2.0'' ''tools/list'' (JNum ''1'')) no_bindings =
     (Inr (Static (JObj [(''tools'', JArr discord_tools)])), no_bindings) \<and>
   handleFilesystemRequest (rpc ''2.0'' ''tools/list'' (JNum ''1'')) no_bindings =
     (Inr (Static (JObj [(''tools'', JArr filesystem_tools)])), no_bindings) \<and>
   fst (handleMemoryRequest (rpc ''2.0'' ''tools/list'' (JNum ''2'')) with_token) =
     fst (handleMemoryRequest (rpc ''2.0'' ''tools/list'' (JNum ''1'')) no_bindings) \<and>
   fst (handleThinkingRequest noon (rpc ''2.0'' ''tools/list'' (JNum ''2'')) with_token) =
     fst (handleThinkingRequest noon (rpc ''2.0'' ''tools/list'' (JNum ''1'')) no_bindings) \<and>
   fst (handleMCPRequest forbidden (rpc ''2.0'' ''tools/list'' (JNum ''2'')) with_token) =
     fst (handleMCPRequest forbidden (rpc ''2.0'' ''tools/list'' (JNum ''1'')) no_bindings) \<and>
   fst (handleFilesystemRequest (rpc ''2.0'' ''tools/list'' (JNum ''2'')) with_token) =
     fst (handleFilesystemRequest (rpc ''2.0'' ''tools/list'' (JNum ''1'')) no_bindings)"
  using tools_list_is_static [of "rpc ''2.0'' ''tools/list'' (JNum ''1'')" None
      "rpc ''2.0'' ''tools/list'' (JNum ''2'')" None no_bindings noon forbidden with_token noon forbidden]
  by (simp add: rpc_def destructure_request_def destructure_def)

section \<open>Unknown methods\<close>

text \<open>
  C9, as stated, at the filesystem wrapper: the throw of an unknown method is caught by
  the inner \<open>catch\<close>, whose answer has the message \<open>Server integration in progress\<close> and a
  fixed \<open>data\<close>; the exception's message is not in it.
\<close>

theorem filesystem_unknown_method_is_caught_inside:
  "fst (filesystem_fetch None (post (rpc ''2.0'' ''resources/list'' (JNum ''7''))) no_bindings) =
     \<lparr>status = 500, cors = True,
      payload = Failure (- 32603) ''Server integration in progress''
                  (Some ''Original TypeScript server needs adaptation for Workers'') (JNum ''7'')\<rparr> \<and>
   handleFilesystemRequest (rpc ''2.0'' ''resources/list'' (JNum ''7'')) no_bindings =
     (Inl (Error ''Unknown method: resources/list''), no_bindings)"
  by (simp add: fixture_defs dispatch_defs)

text \<open>
  C9, amended. A \<open>POST /\<close> that passes the gate, with the marker \<open>"2.0"\<close> and a method other
  than \<open>initialize\<close>, \<open>tools/list\<close> and \<open>tools/call\<close>: the dispatcher throws
  \<open>unknown_method method\<close>, which is the error \<open>Unknown method: <method>\<close> when the method
  converts to a string and the \<open>TypeError\<close> of that conversion when it does not. In the
  memory, sequential-thinking and Discord wrappers the outer \<open>catch\<close> answers with status
  500, code -32603, \<open>Internal error\<close> and the exception's message as \<open>data\<close>; in the
  filesystem wrapper the inner \<open>catch\<close> (reached by this throw, or before it by a failing
  import of \<open>../dist/index.js\<close>) answers with status 500, code -32603,
  \<open>Server integration in progress\<close> and a fixed \<open>data\<close>. The environment is unchanged:
  nothing is retried.
\<close>

theorem unknown_method_is_internal_error:
  assumes "http_method request = ''POST''" and "pathname request = ''/''"
    and "json_body request = Inr body"
    and "get_prop (Some body) ''jsonrpc'' = Inr (Some (JStr ''2.0''))"
    and "destructure_request body = Inr (method, params)"
    and "method \<noteq> Some (JStr ''initialize'')" and "method \<noteq> Some (JStr ''tools/list'')"
    and "method \<noteq> Some (JStr ''tools/call'')"
  shows "handleMemoryRequest body env = (Inl (unknown_method method), env) \<and>
         handleThinkingRequest clk body env = (Inl (unknown_method method), env) \<and>
         handleMCPRequest net body env = (Inl (unknown_method method), env) \<and>
         handleFilesystemRequest body env = (Inl (unknown_method method), env) \<and>
         (jwt_gate request env = None \<longrightarrow>
            answers_internal_error (unknown_method method) (fst (memory_fetch request env)) \<and>
            snd (memory_fetch request env) = env \<and>
            answers_internal_error (unknown_method method) (fst (thinking_fetch clk request env)) \<and>
            snd (thinking_fetch clk request env) = env \<and>
            answers_in_progress (fst (filesystem_fetch dist request env)) \<and>
            snd (filesystem_fetch dist request env) = env) \<and>
         (key_gate request env = None \<longrightarrow>
            answers_internal_error (unknown_method method) (fst (discord_fetch net request env)) \<and>
            snd (discord_fetch net request env) = env) \<and>
         (\<forall>m. template method = Inr m \<longrightarrow>
            unknown_method method = Error (''Unknown method: '' @ m)) \<and>
         (\<forall>e. template method = Inl e \<longrightarrow> unknown_method method = e)"
proof -
  have marker: "invalid_marker body = Inr False"
    using assms(4) by (simp add: invalid_marker_def)
  have m: "handleMemoryRequest body env = (Inl (unknown_method method), env)"
    using assms(5-8) by (simp add: handleMemoryRequest_def)
  have t: "handleThinkingRequest clk body env = (Inl (unknown_method method), env)"
    using assms(5-8) by (simp add: handleThinkingRequest_def)
  have d: "handleMCPRequest net body env = (Inl (unknown_method method), env)"
    using assms(5-8) by (simp add: handleMCPRequest_def)
  have f: "handleFilesystemRequest body env = (Inl (unknown_method method), env)"
    using assms(5-8) by (simp add: handleFilesystemRequest_def)
  have pm: "post_root handleMemoryRequest request env = (internal_error (unknown_method method), env)"
    using assms(3) marker m by (simp add: post_root_def)
  have pt: "post_root (handleThinkingRequest clk) request env =
      (internal_error (unknown_method method), env)"
    using assms(3) marker t by (simp add: post_root_def)
  have pd: "post_root (handleMCPRequest net) request env =
      (internal_error (unknown_method method), env)"
    using assms(3) marker d by (simp add: post_root_def)
  have pf: "filesystem_post_root dist request env = (integration_in_progress body, env)"
    using assms(3) marker f by (simp add: filesystem_post_root_def split: option.splits)
  have jwt: "jwt_gate request env = None \<longrightarrow>
      answers_internal_error (unknown_method method) (fst (memory_fetch request env)) \<and>
      snd (memory_fetch request env) = env \<and>
      answers_internal_error (unknown_method method) (fst (thinking_fetch clk request env)) \<and>
      snd (thinking_fetch clk request env) = env \<and>
      answers_in_progress (fst (filesystem_fetch dist request env)) \<and>
      snd (filesystem_fetch dist request env) = env"
    using assms(1,2) pm pt pf
    by (simp add: memory_fetch_def thinking_fetch_def filesystem_fetch_def
        answers_internal_error_simp answers_in_progress_simp)
  have key: "key_gate request env = None \<longrightarrow>
      answers_internal_error (unknown_method method) (fst (discord_fetch net request env)) \<and>
      snd (discord_fetch net request env) = env"
    using assms(1,2) pd by (simp add: discord_fetch_def answers_internal_error_simp)
  have r: "\<forall>m. template method = Inr m \<longrightarrow> unknown_method method = Error (''Unknown method: '' @ m)"
    by (simp add: unknown_method_def)
  have l: "\<forall>e. template method = Inl e \<longrightarrow> unknown_method method = e"
    by (simp add: unknown_method_def)
  from m t d f jwt key r l show ?thesis by blast
qed

theorem unknown_method_is_internal_error_witness:
  "handleMemoryRequest (rpc ''2.0'' ''prompts/list'' (JNum ''3'')) no_bindings =
     (Inl (Error ''Unknown method: prompts/list''), no_bindings) \<and>
   answers_internal_error (Error ''Unknown method: prompts/list'')
     (fst (memory_fetch (post (rpc ''2.0'' ''prompts/list'' (JNum ''3''))) no_bindings)) \<and>
   answers_internal_error (Error ''Unknown method: prompts/list'')
     (fst (thinking_fetch noon (post (rpc ''2.0'' ''prompts/list'' (JNum ''3''))) no_bindings)) \<and>
   answers_in_progress
     (fst (filesystem_fetch None (post (rpc ''2.0'' ''prompts/list'' (JNum ''3''))) no_bindings)) \<and>
   answers_internal_error (Error ''Unknown method: prompts/list'')
     (fst (discord_fetch forbidden (post (rpc ''2.0'' ''prompts/list'' (JNum ''3''))) no_bindings)) \<and>
   handleMemoryRequest odd_method no_bindings =
     (Inl (TypeError ''Cannot convert object to primitive value''), no_bindings) \<and>
   answers_internal_error (TypeError ''Cannot convert object to primitive value'')
     (fst (memory_fetch (post odd_method) no_bindings))"
proof -
  have a1: "http_method (post b) = ''POST''" "pathname (post b) = ''/''" "json_body (post b) = Inr b"
    for b by (simp_all add: post_def)
  have a4: "get_prop (Some (rpc ''2.0'' ''prompts/list'' (JNum ''3''))) ''jsonrpc'' =
      Inr (Some (JStr ''2.0''))"
    by (simp add: rpc_def get_prop_def)
  have a5: "destructure_request (rpc ''2.0'' ''prompts/list'' (JNum ''3'')) =
      Inr (Some (JStr ''prompts/list''), None)"
    by (simp add: rpc_def destructure_request_def destructure_def)
  have a6: "Some (JStr ''prompts/list'') \<noteq> Some (JStr ''initialize'')"
    "Some (JStr ''prompts/list'') \<noteq> Some (JStr ''tools/list'')"
    "Some (JStr ''prompts/list'') \<noteq> Some (JStr ''tools/call'')"
    by simp_all
  have o4: "get_prop (Some odd_method) ''jsonrpc'' = Inr (Some (JStr ''2.0''))"
    by (simp add: odd_method_def get_prop_def)
  have o5: "destructure_request odd_method =
      Inr (Some (JObj [(''toString'', JNum ''0'')]), None)"
    by (simp add: odd_method_def destructure_request_def destructure_def)
  have o6: "Some (JObj [(''toString'', JNum ''0'')]) \<noteq> Some (JStr ''initialize'')"
    "Some (JObj [(''toString'', JNum ''0'')]) \<noteq> Some (JStr ''tools/list'')"
    "Some (JObj [(''toString'', JNum ''0'')]) \<noteq> Some (JStr ''tools/call'')"
    by simp_all
  have gates: "jwt_gate (post b) no_bindings = None" "key_gate (post b) no_bindings = None" for b
    by (simp_all add: jwt_gate_def key_gate_def is_set_def no_bindings_def)
  have u1: "unknown_method (Some (JStr ''prompts/list'')) = Error ''Unknown method: prompts/list''"
    by (simp add: unknown_method_def template_def)
  have u2: "unknown_method (Some (JObj [(''toString'', JNum ''0'')])) =
      TypeError ''Cannot convert object to primitive value''"
    by (simp add: unknown_method_def template_def)
  from unknown_method_is_internal_error [OF a1 a4 a5 a6, of no_bindings noon forbidden None]
    unknown_method_is_internal_error [OF a1 o4 o5 o6, of no_bindings noon forbidden None]
  show ?thesis
    by (simp add: gates u1 u2)
qed

section \<open>A refused \<open>send_message\<close>\<close>

text \<open>
  C7. A \<open>send_message\<close> call (bot token set, arguments given, the channel id converted into
  the URL) whose upstream response has a status outside 200-299 returns a tool result with
  \<open>isError\<close> set and one text that contains the decimal status code; the dispatcher does
  not throw, and the RPC response is a 200 result envelope carrying that tool result.
\<close>

theorem send_message_upstream_failure_is_soft:
  assumes "json_body request = Inr body"
    and "get_prop (Some body) ''jsonrpc'' = Inr (Some (JStr ''2.0''))"
    and "destructure_request body = Inr (Some (JStr ''tools/call''), params)"
    and "destructure_params params = Inr (Some (JStr ''send_message''), Some args)"
    and "DISCORD_TOKEN env = Some token" and "token \<noteq> []"
    and "args \<noteq> JNull"
    and "template (field args ''channel_id'') = Inr channel"
    and "net \<lparr>url = ''https://discord.com/api/v10/'' @ (''channels/'' @ channel @ ''/messages''),
              req_method = Some ''POST'',
              req_body = Some (object [(''content'', field args ''message'')]),
              bot_token = token\<rparr> = Inr response"
    and "\<not> ok response"
  shows "\<exists>t. handleToolCall net params env = Inr \<lparr>content = [Text t], isError = True\<rparr> \<and>
             sublist (show_nat (up_status response)) t \<and>
             post_root (handleMCPRequest net) request env =
               (\<lparr>status = 200, cors = True,
                 payload = Result (ToolCallResult \<lparr>content = [Text t], isError = True\<rparr>)
                             (body_id body)\<rparr>, env)"
proof -
  define t where "t = ''Error sending message: '' @ ''Discord API error: '' @
      show_nat (up_status response) @ '' '' @ statusText response @ '' - '' @ body_text response"
  have "sendMessage_try net (Some args) token =
      Inl (Error (''Discord API error: '' @ show_nat (up_status response) @ '' '' @
                  statusText response @ '' - '' @ body_text response))"
  proof -
    have d: "destructure ''channel_id'' ''args'' (Some args) = Inr args"
      using assms(7) by (simp add: destructure_cases)
    show ?thesis
      using assms(8-10) by (simp add: sendMessage_try_def makeDiscordRequest_def d)
  qed
  then have s: "sendMessage net (Some args) token = \<lparr>content = [Text t], isError = True\<rparr>"
    by (simp add: sendMessage_def soft_error_def t_def)
  have h: "handleToolCall net params env = Inr \<lparr>content = [Text t], isError = True\<rparr>"
    using assms(4,5,6) s by (simp add: handleToolCall_def)
  have marker: "invalid_marker body = Inr False"
    using assms(2) by (simp add: invalid_marker_def)
  have "handleMCPRequest net body env =
      (Inr (ToolCallResult \<lparr>content = [Text t], isError = True\<rparr>), env)"
    using assms(3) h by (simp add: handleMCPRequest_def)
  then have p: "post_root (handleMCPRequest net) request env =
      (\<lparr>status = 200, cors = True,
        payload = Result (ToolCallResult \<lparr>content = [Text t], isError = True\<rparr>) (body_id body)\<rparr>,
       env)"
    using assms(1) marker by (simp add: post_root_def success_def)
  have "sublist (show_nat (up_status response)) t"
    unfolding t_def sublist_def
    by (rule exI [of _ "''Error sending message: '' @ ''Discord API error: ''"],
        rule exI [of _ "'' '' @ statusText response @ '' - '' @ body_text response"]) simp
  with h p show ?thesis by blast
qed

theorem send_message_upstream_failure_is_soft_witness:
  "\<exists>t. handleToolCall forbidden
          (Some (JObj [(''name'', JStr ''send_message''),
                       (''arguments'', JObj [(''channel_id'', JStr ''42''), (''message'', JStr ''hello'')])]))
          with_token = Inr \<lparr>content = [Text t], isError = True\<rparr> \<and>
       sublist ''403'' t \<and>
       post_root (handleMCPRequest forbidden) (post send_hello) with_token =
         (\<lparr>status = 200, cors = True,
           payload = Result (ToolCallResult \<lparr>content = [Text t], isError = True\<rparr>) (Some (JNum ''5''))\<rparr>,
          with_token)"
proof -
  define args where "args = JObj [(''channel_id'', JStr ''42''), (''message'', JStr ''hello'')]"
  define params where "params = JObj [(''name'', JStr ''send_message''), (''arguments'', args)]"
  define response where "response =
      \<lparr>up_status = 403, statusText = ''Forbidden'', body_text = ''Missing Access'',
       body_json = Inl (SyntaxError ''Unexpected token M in JSON at position 0'')\<rparr>"
  have h1: "json_body (post send_hello) = Inr send_hello"
    by (simp add: post_def)
  have h2: "get_prop (Some send_hello) ''jsonrpc'' = Inr (Some (JStr ''2.0''))"
    by (simp add: send_hello_def tool_call_def get_prop_def)
  have h3: "destructure_request send_hello = Inr (Some (JStr ''tools/call''), Some params)"
    by (simp add: send_hello_def tool_call_def destructure_request_def destructure_def
        params_def args_def)
  have h4: "destructure_params (Some params) = Inr (Some (JStr ''send_message''), Some args)"
    by (simp add: destructure_params_def destructure_def params_def)
  have h5: "DISCORD_TOKEN with_token = Some ''bot-token''" "''bot-token'' \<noteq> []"
    by (simp_all add: with_token_def no_bindings_def)
  have h7: "args \<noteq> JNull"
    by (simp add: args_def)
  have h8: "template (field args ''channel_id'') = Inr ''42''"
    by (simp add: args_def template_def)
  have h9: "forbidden \<lparr>url = ''https://discord.com/api/v10/'' @ (''channels/'' @ ''42'' @ ''/messages''),
              req_method = Some ''POST'',
              req_body = Some (object [(''content'', field args ''message'')]),
              bot_token = ''bot-token''\<rparr> = Inr response"
    by (simp add: forbidden_def response_def)
  have h10: "\<not> ok response"
    by (simp add: ok_def response_def)
  have st: "show_nat (up_status response) = ''403''"
    by (simp add: response_def show_403)
  have bid: "body_id send_hello = Some (JNum ''5'')"
    by (simp add: body_id_def send_hello_def tool_call_def get_prop_def)
  from send_message_upstream_failure_is_soft
    [where request = "post send_hello" and body = send_hello and params = "Some params"
       and args = args and env = with_token and token = "''bot-token''" and channel = "''42''"
       and net = forbidden and response = response,
     OF h1 h2 h3 h4 h5 h7 h8 h9 h10]
  show ?thesis
    unfolding st bid params_def args_def .
qed

section \<open>The loop over the entity descriptors\<close>







text \<open>The loop adds a fixed map to the one it starts from.\<close>

lemma store_entities_add:
  "store_entities es m = Inr m' \<Longrightarrow> \<exists>u. \<forall>m0. store_entities es m0 = Inr (m0 ++ u)"
proof (induction es arbitrary: m m')
  case Nil
  show ?case by (rule exI [of _ Map.empty]) simp
next
  case (Cons e es)
  from Cons.prems obtain k v where kv: "entity_of e = Inr (k, v)"
    and rest: "store_entities es (assign m k v) = Inr m'"
    by (auto simp: store_entity_def split: sum.splits)
  from Cons.IH [OF rest] obtain u where u: "\<forall>m0. store_entities es m0 = Inr (m0 ++ u)"
    by blast
  define u1 where "u1 = (if k = ''__proto__'' then Map.empty else [k \<mapsto> v])"
  have a: "assign m0 k v = m0 ++ u1" for m0
    by (simp add: assign_def u1_def)
  have "store_entities (e # es) m0 = Inr (m0 ++ (u1 ++ u))" for m0
    using kv u a by (simp add: store_entity_def)
  then show ?case by blast
qed

lemma store_entities_idem:
  assumes "store_entities es m = Inr m'"
  shows "store_entities es m' = Inr m'"
proof -
  from store_entities_add [OF assms] obtain u
    where u: "\<forall>m0. store_entities es m0 = Inr (m0 ++ u)" by blast
  then have "m' = m ++ u" using assms by simp
  moreover have "store_entities es m' = Inr (m' ++ u)" using u by simp
  moreover have "u ++ u = u" by (rule map_add_subsumed1) (rule map_le_refl)
  ultimately show ?thesis by (simp flip: map_add_assoc)
qed

section \<open>Creating entities\<close>



lemmas memory_branch_defs = create_entities_def create_entities_try_def load_graph_def
  iterate_def store_entity_def entity_of_def assign_def empty_graph_def stored_graph_def





text \<open>
  C10. A \<open>create_entities\<close> call with the names \<open>x\<close>, \<open>y\<close>, \<open>x\<close> is answered by the
  outer \<open>catch\<close> with the \<open>ReferenceError\<close> of the undeclared \<open>request\<close>, and no graph is
  stored: there is no entry per distinct name. The branch itself, were it reached, keeps
  the last descriptor of each name and is idempotent, as the lemmas
  \<open>store_entities_last_wins\<close> and \<open>create_entities_idempotent\<close> show.
\<close>

theorem create_entities_call_stores_nothing:
  "memory_fetch (post (tool_call ''create_entities'' three_descriptors (JNum ''1''))) memory_bound =
     (internal_error (ReferenceError ''request is not defined''), memory_bound) \<and>
   stored_graph ''memory:default''
     (snd (memory_fetch (post (tool_call ''create_entities'' three_descriptors (JNum ''1''))) memory_bound)) = None"
  by (simp add: three_descriptors_def fixture_defs dispatch_defs stored_graph_def)

lemma create_entities_idempotent:
  "create_entities k args (snd (create_entities k args env)) = create_entities k args env"
proof (cases "create_entities_try k args env")
  case (Pair r env')
  show ?thesis
  proof (cases r)
    case (Inl e)
    with Pair have "env' = env"
      by (auto simp: create_entities_try_def split: sum.splits option.splits)
    with Pair Inl show ?thesis by (simp add: create_entities_def)
  next
    case (Inr res)
    with Pair obtain kv g ents es m where kv: "MEMORY_KV env = Some kv"
      and g: "load_graph k env = Inr g"
      and ents: "get_prop args ''entities'' = Inr ents" and es: "iterate ents = Inr es"
      and m: "store_entities es (entities g) = Inr m"
      and env': "env' = env\<lparr>MEMORY_KV := Some (kv(k \<mapsto> g\<lparr>entities := m\<rparr>))\<rparr>"
      and res: "res = \<lparr>content = [Text (''Created '' @ show_nat (length es) @ '' entities'')],
                       isError = False\<rparr>"
      by (auto simp: create_entities_try_def split: sum.splits option.splits)
    have g': "load_graph k env' = Inr (g\<lparr>entities := m\<rparr>)"
      by (simp add: env' load_graph_def)
    have "create_entities_try k args env' = (Inr res, env')"
      using g' ents es store_entities_idem [OF m]
      by (simp add: create_entities_try_def env' res)
    with Pair Inr show ?thesis by (simp add: create_entities_def)
  qed
qed

text \<open>A name that does not convert to a property key: the branch catches the throw and stores nothing.\<close>

lemma unconvertible_name_is_a_soft_error:
  "create_entities ''memory:default'' (Some odd_name) memory_bound =
     (\<lparr>content = [Text ''Error creating entities: Cannot convert object to primitive value''],
       isError = True\<rparr>, memory_bound)"
  by (simp add: odd_name_def memory_bound_def no_bindings_def memory_branch_defs get_prop_def
      template_def soft_error_def)

section \<open>Appending to a thinking session\<close>

lemma sequential_thinking_appends:
  assumes "continues sid args"
    and "stored_session (''thinking:'' @ userId @ '':'' @ sid) env = Some s"
  shows "stored_session (''thinking:'' @ userId @ '':'' @ sid)
           (snd (sequential_thinking clk userId args env)) =
         Some (s\<lparr>steps := steps s @ new_steps (length (steps s)) [(clk, args)],
                 updated := Some (iso_updated clk)\<rparr>)"
proof -
  from assms(1) have sid: "sid \<noteq> []" "get_prop args ''session_id'' = Inr (Some (JStr sid))"
    and rq: "renders (arg_query args)"
    by (simp_all add: continues_def)
  from sid(2) obtain a where a: "args = Some a" "a \<noteq> JNull"
    by (auto simp: get_prop_cases)
  then have q: "get_prop args ''query'' = Inr (field a ''query'')"
    by (auto simp: get_prop_cases)
  then have aq: "arg_query args = field a ''query''"
    by (simp add: arg_query_def)
  from rq obtain qt where qt: "template (field a ''query'') = Inr qt"
    by (auto simp: renders_def aq split: sum.splits)
  then have rd: "rendered (field a ''query'') = qt"
    by (simp add: rendered_def)
  from assms(2) obtain kv where kv: "THINKING_KV env = Some kv"
    "kv (''thinking:'' @ userId @ '':'' @ sid) = Some s"
    by (auto simp: stored_session_def split: option.splits)
  show ?thesis
    using sid q qt kv
    by (simp add: sequential_thinking_def sequential_thinking_try_def or_else_def Let_def
        stored_session_def aq rd)
qed

lemma think_all_appends:
  assumes "list_all (\<lambda>c. continues sid (snd c)) calls"
    and "stored_session (''thinking:'' @ userId @ '':'' @ sid) env = Some s"
  shows "\<exists>s'. stored_session (''thinking:'' @ userId @ '':'' @ sid) (think_all userId calls env) = Some s' \<and>
              steps s' = steps s @ new_steps (length (steps s)) calls"
  using assms
proof (induction calls arbitrary: env s)
  case Nil
  then show ?case by simp
next
  case (Cons c calls)
  obtain clk args where c: "c = (clk, args)" by (cases c)
  from Cons.prems(1) c have here: "continues sid args"
    and rest: "list_all (\<lambda>c. continues sid (snd c)) calls" by simp_all
  define s1 where "s1 = s\<lparr>steps := steps s @ new_steps (length (steps s)) [(clk, args)],
                            updated := Some (iso_updated clk)\<rparr>"
  have one: "stored_session (''thinking:'' @ userId @ '':'' @ sid)
      (snd (sequential_thinking clk userId args env)) = Some s1"
    unfolding s1_def by (rule sequential_thinking_appends [OF here Cons.prems(2)])
  from Cons.IH [OF rest one] obtain s' where
    s': "stored_session (''thinking:'' @ userId @ '':'' @ sid)
           (think_all userId calls (snd (sequential_thinking clk userId args env))) = Some s'"
    and st: "steps s' = steps s1 @ new_steps (length (steps s1)) calls" by blast
  have "steps s' = steps s @ new_steps (length (steps s)) (c # calls)"
    using st by (simp add: s1_def c)
  with s' show ?case by (auto simp: c)
qed

lemma length_new_steps: "length (new_steps n calls) = length calls"
  by (induction n calls rule: new_steps.induct) simp_all

lemma step_ids_new_steps:
  "map step_id (new_steps n calls) = map (\<lambda>i. ''step_'' @ show_nat (n + 1 + i)) [0..<length calls]"
proof (induction n calls rule: new_steps.induct)
  case (1 n)
  show ?case by simp
next
  case (2 n clk args calls)
  have "[0..<length ((clk, args) # calls)] = 0 # map Suc [0..<length calls]"
    by (simp add: upt_conv_Cons map_Suc_upt del: upt_Suc)
  with 2 show ?case by (simp add: comp_def)
qed

lemma queries_new_steps: "map query (new_steps n calls) = map (\<lambda>c. arg_query (snd c)) calls"
  by (induction n calls rule: new_steps.induct) simp_all

text \<open>
  C5. A \<open>sequential_thinking\<close> call that supplies the id \<open>s1\<close> of a stored session of
  one step is answered by the outer \<open>catch\<close> with the \<open>ReferenceError\<close> of the undeclared
  \<open>request\<close>; the stored session still has one step, not two. The branch itself, were it
  reached, appends one step per call with the id \<open>step_\<close> and the new length, in call
  order, as \<open>think_all_appends\<close> and the lemmas on \<open>new_steps\<close> show.
\<close>

theorem sequential_thinking_call_appends_nothing:
  "thinking_fetch noon (post (tool_call ''sequential_thinking'' think_again (JNum ''1''))) thinking_bound =
     (internal_error (ReferenceError ''request is not defined''), thinking_bound) \<and>
   map_option (\<lambda>s. length (steps s))
     (stored_session ''thinking:default:s1''
        (snd (thinking_fetch noon (post (tool_call ''sequential_thinking'' think_again (JNum ''1'')))
                thinking_bound))) = Some 1"
  by (simp add: fixture_defs dispatch_defs stored_session_def one_step_session_def)

end
